theory Spec2Isabelle
  imports Complex_Main "HOL-Library.AList" "HOL-Library.Multiset"
begin

section \<open>Python values and exceptions\<close>

text \<open>
  The driver \<^verbatim>\<open>salt/cloud/clouds/linode.py\<close> works on decoded JSON: dictionaries,
  lists, strings, integers, booleans and \<^verbatim>\<open>None\<close>. A dictionary is an association list
  (keys in insertion order, each key once). \<open>PObj\<close> is an instance of any other class,
  with the values it was built from: the functions below can hand one back where a
  dictionary is expected. Where the two major versions of Python differ, the behaviour
  of Python 3 is taken: ordering an integer against \<^verbatim>\<open>None\<close> or a string raises
  \<^verbatim>\<open>TypeError\<close>, and \<^verbatim>\<open>/\<close> on two integers is true division. A string is a list of
  characters with codes below 256.
\<close>

datatype pyval =
    PNone
  | PBool bool
  | PInt int
  | PStr string
  | PList "pyval list"
  | PDict "(string \<times> pyval) list"
  | PObj string "pyval list"

text \<open>Every exception the modelled code can raise; the string is its message.\<close>

datatype exn =
    SaltCloudSystemExit string
  | SaltCloudException string
  | SaltCloudNotFound string
  | KeyError string
  | IndexError
  | TypeError
  | AttributeError
  | ValueError
  | ZeroDivisionError
  | OverflowError
  | RequestException string

definition then_e :: "exn + 'a \<Rightarrow> ('a \<Rightarrow> exn + 'b) \<Rightarrow> exn + 'b" where
  "then_e r f = (case r of Inl e \<Rightarrow> Inl e | Inr x \<Rightarrow> f x)"

definition py_truthy :: "pyval \<Rightarrow> bool" where
  "py_truthy v = (case v of PNone \<Rightarrow> False | PBool b \<Rightarrow> b | PInt i \<Rightarrow> i \<noteq> 0
     | PStr s \<Rightarrow> s \<noteq> [] | PList xs \<Rightarrow> xs \<noteq> [] | PDict kvs \<Rightarrow> kvs \<noteq> [] | PObj c args \<Rightarrow> True)"

text \<open>\<^verbatim>\<open>d.get(k, default)\<close>: only a dictionary has the method.\<close>

definition py_get :: "pyval \<Rightarrow> string \<Rightarrow> pyval \<Rightarrow> exn + pyval" where
  "py_get d k dflt = (case d of
       PDict kvs \<Rightarrow> Inr (case map_of kvs k of Some v \<Rightarrow> v | None \<Rightarrow> dflt)
     | _ \<Rightarrow> Inl AttributeError)"

text \<open>\<^verbatim>\<open>d[k]\<close> with a string key.\<close>

definition py_item :: "pyval \<Rightarrow> string \<Rightarrow> exn + pyval" where
  "py_item d k = (case d of
       PDict kvs \<Rightarrow> (case map_of kvs k of Some v \<Rightarrow> Inr v | None \<Rightarrow> Inl (KeyError k))
     | _ \<Rightarrow> Inl TypeError)"

text \<open>\<^verbatim>\<open>xs[0]\<close>.\<close>

definition py_first :: "pyval \<Rightarrow> exn + pyval" where
  "py_first v = (case v of
       PList xs \<Rightarrow> (case xs of [] \<Rightarrow> Inl IndexError | x # _ \<Rightarrow> Inr x)
     | PStr s \<Rightarrow> (case s of [] \<Rightarrow> Inl IndexError | c # _ \<Rightarrow> Inr (PStr [c]))
     | PDict kvs \<Rightarrow> Inl (KeyError ''0'')
     | _ \<Rightarrow> Inl TypeError)"

fun starts_with :: "string \<Rightarrow> string \<Rightarrow> bool" where
  "starts_with s [] = True"
| "starts_with [] (p # ps) = False"
| "starts_with (c # cs) (p # ps) = (c = p \<and> starts_with cs ps)"

fun py_substring :: "string \<Rightarrow> string \<Rightarrow> bool" where
  "py_substring k [] = (k = [])"
| "py_substring k (c # cs) = (starts_with (c # cs) k \<or> py_substring k cs)"

text \<open>\<^verbatim>\<open>k in v\<close> for a string \<open>k\<close>.\<close>

definition py_contains :: "pyval \<Rightarrow> string \<Rightarrow> exn + bool" where
  "py_contains v k = (case v of
       PDict kvs \<Rightarrow> Inr (k \<in> set (map fst kvs))
     | PList xs \<Rightarrow> Inr (PStr k \<in> set xs)
     | PStr s \<Rightarrow> Inr (py_substring k s)
     | _ \<Rightarrow> Inl TypeError)"

text \<open>The elements a \<^verbatim>\<open>for\<close> loop visits.\<close>

definition py_iter :: "pyval \<Rightarrow> exn + pyval list" where
  "py_iter v = (case v of
       PList xs \<Rightarrow> Inr xs
     | PDict kvs \<Rightarrow> Inr (map (\<lambda>kv. PStr (fst kv)) kvs)
     | PStr s \<Rightarrow> Inr (map (\<lambda>c. PStr [c]) s)
     | _ \<Rightarrow> Inl TypeError)"

fun join_strs :: "string \<Rightarrow> pyval list \<Rightarrow> exn + string" where
  "join_strs sep [] = Inr []"
| "join_strs sep [PStr s] = Inr s"
| "join_strs sep (PStr s # x # xs) = then_e (join_strs sep (x # xs)) (\<lambda>r. Inr (s @ sep @ r))"
| "join_strs sep (_ # xs) = Inl TypeError"

text \<open>\<^verbatim>\<open>sep.join(v)\<close>.\<close>

definition py_join :: "string \<Rightarrow> pyval \<Rightarrow> exn + string" where
  "py_join sep v = then_e (py_iter v) (join_strs sep)"

text \<open>An operand of integer arithmetic or comparison (\<^verbatim>\<open>bool\<close> is a subclass of \<^verbatim>\<open>int\<close>).\<close>

definition py_num :: "pyval \<Rightarrow> exn + int" where
  "py_num v = (case v of PInt i \<Rightarrow> Inr i | PBool b \<Rightarrow> Inr (if b then 1 else 0) | _ \<Rightarrow> Inl TypeError)"

subsection \<open>Rendering and reading integers\<close>

definition digit_char :: "nat \<Rightarrow> char" where
  "digit_char d = ''0123456789'' ! d"

fun digits :: "nat \<Rightarrow> string" where
  "digits n = (if n < 10 then [digit_char n] else digits (n div 10) @ [digit_char (n mod 10)])"

declare digits.simps [simp del]

definition str_int :: "int \<Rightarrow> string" where
  "str_int i = (if i < 0 then CHR ''-'' # digits (nat (- i)) else digits (nat i))"

text \<open>
  \<^verbatim>\<open>str(v)\<close>, as \<^verbatim>\<open>"{}".format(v)\<close> and \<^verbatim>\<open>six.text_type(v)\<close> give it. It is exact on
  \<^verbatim>\<open>None\<close>, booleans, integers and strings, which is what identifiers and sizes are; a
  container is rendered element by element without the quoting of \<^verbatim>\<open>repr\<close>.
\<close>

fun py_str :: "pyval \<Rightarrow> string" where
  "py_str PNone = ''None''"
| "py_str (PBool b) = (if b then ''True'' else ''False'')"
| "py_str (PInt i) = str_int i"
| "py_str (PStr s) = s"
| "py_str (PList xs) = ''['' @ concat (map (\<lambda>x. py_str x @ '', '') xs) @ '']''"
| "py_str (PDict kvs) = ''{'' @ concat (map (\<lambda>kv. fst kv @ '': '' @ py_str (snd kv) @ '', '') kvs) @ ''}''"
| "py_str (PObj c args) = c"

text \<open>
  The characters that \<^verbatim>\<open>int\<close> skips around a number: the white space of ASCII that C
  knows, and the two white-space characters between 128 and 255, next line and
  no-break space. The separators 28 to 31 are white space for \<^verbatim>\<open>str.isspace\<close> but are not
  skipped by \<^verbatim>\<open>int\<close>.
\<close>

definition is_space :: "char \<Rightarrow> bool" where
  "is_space c = (of_char c \<in> {9::nat, 10, 11, 12, 13, 32, 133, 160})"

definition digit_val :: "char \<Rightarrow> nat option" where
  "digit_val c = (let n = of_char c in if (48::nat) \<le> n \<and> n \<le> 57 then Some (n - 48) else None)"

text \<open>
  The digits after the first one: each is a digit, or one underscore followed by a
  digit. \<open>acc\<close> is the number read so far.
\<close>

fun read_digits :: "nat \<Rightarrow> string \<Rightarrow> nat option" where
  "read_digits acc [] = Some acc"
| "read_digits acc [c] =
     (case digit_val c of None \<Rightarrow> None | Some d \<Rightarrow> Some (10 * acc + d))"
| "read_digits acc (c # c' # cs) =
     (if c = CHR ''_'' then
        (case digit_val c' of None \<Rightarrow> None | Some d \<Rightarrow> read_digits (10 * acc + d) cs)
      else
        (case digit_val c of None \<Rightarrow> None | Some d \<Rightarrow> read_digits (10 * acc + d) (c' # cs)))"

definition read_nat :: "string \<Rightarrow> nat option" where
  "read_nat s =
     (case s of
        [] \<Rightarrow> None
      | c # cs \<Rightarrow> (case digit_val c of None \<Rightarrow> None | Some d \<Rightarrow> read_digits d cs))"

text \<open>
  \<^verbatim>\<open>int(s)\<close> on a string: surrounding white space, an optional sign, then decimal digits,
  where single underscores may stand between digits. Nothing else is read: an empty
  string, a sign alone, white space after the sign, a leading, trailing or doubled
  underscore all raise \<^verbatim>\<open>ValueError\<close>. The conversions between integers and decimal
  strings are taken without a cap on the number of digits, as in the interpreters the
  driver was written for.
\<close>

definition int_of_str :: "string \<Rightarrow> int option" where
  "int_of_str s =
     (let t = rev (dropWhile is_space (rev (dropWhile is_space s)))
      in case t of
           [] \<Rightarrow> None
         | c # cs \<Rightarrow>
             if c = CHR ''-'' then map_option (\<lambda>n. - int n) (read_nat cs)
             else if c = CHR ''+'' then map_option int (read_nat cs)
             else map_option int (read_nat t))"

text \<open>\<^verbatim>\<open>int(v)\<close>.\<close>

definition py_int :: "pyval \<Rightarrow> exn + int" where
  "py_int v = (case v of
       PInt i \<Rightarrow> Inr i
     | PBool b \<Rightarrow> Inr (if b then 1 else 0)
     | PStr s \<Rightarrow> (case int_of_str s of None \<Rightarrow> Inl ValueError | Some i \<Rightarrow> Inr i)
     | _ \<Rightarrow> Inl TypeError)"

subsection \<open>True division\<close>

text \<open>
  \<^verbatim>\<open>a / b\<close> on two integers is a float: the double nearest to the exact quotient, a tie
  going to the even significand. A float is written as the rational number it stands
  for (the sign of a zero plays no part in what follows). \<open>bit_length\<close> is
  \<^verbatim>\<open>int.bit_length\<close> on a positive integer, and \<open>floor_log2 a b\<close> the exponent \<open>e\<close> with
  \<open>2 powi e \<le> a / b < 2 powi (e + 1)\<close> for positive \<open>a\<close> and \<open>b\<close>.
\<close>

function bit_length :: "int \<Rightarrow> int" where
  "bit_length n = (if n \<le> 0 then 0 else 1 + bit_length (n div 2))"
  by pat_completeness auto
termination
  by (relation "measure nat") auto

declare bit_length.simps [simp del]

definition floor_log2 :: "int \<Rightarrow> int \<Rightarrow> int" where
  "floor_log2 a b =
     (let d = bit_length a - bit_length b
      in if (2::rat) powi d * of_int b \<le> of_int a then d else d - 1)"

definition round_half_even :: "rat \<Rightarrow> int" where
  "round_half_even x =
     (let f = \<lfloor>x\<rfloor>; r = x - of_int f
      in if r < 1 / 2 then f else if 1 / 2 < r then f + 1 else if even f then f else f + 1)"

text \<open>
  The double nearest to \<open>a / b\<close> for positive \<open>a\<close> and \<open>b\<close>: 53 significant bits, the
  exponent not below that of the subnormal numbers, and \<open>None\<close> for a result that is no
  finite double.
\<close>

definition double_of_quot :: "int \<Rightarrow> int \<Rightarrow> rat option" where
  "double_of_quot a b =
     (let e = max (floor_log2 a b) (- 1022);
          ulp = (2::rat) powi (e - 52);
          r = of_int (round_half_even (of_int a / (of_int b * ulp))) * ulp
      in if 2 powi 1024 \<le> r then None else Some r)"

definition py_truediv :: "int \<Rightarrow> int \<Rightarrow> exn + rat" where
  "py_truediv a b =
     (if b = 0 then Inl ZeroDivisionError
      else if a = 0 then Inr 0
      else case double_of_quot \<bar>a\<bar> \<bar>b\<bar> of
             None \<Rightarrow> Inl OverflowError
           | Some r \<Rightarrow> Inr (of_int (sgn a * sgn b) * r))"

text \<open>\<^verbatim>\<open>int(x)\<close> on a float cuts towards zero.\<close>

definition py_trunc :: "rat \<Rightarrow> int" where
  "py_trunc x = (if 0 \<le> x then \<lfloor>x\<rfloor> else \<lceil>x\<rceil>)"

section \<open>The world: transport log, events, and actions\<close>

text \<open>
  Every call of the transport (\<^verbatim>\<open>_query\<close>) is logged, so that a theorem can say which
  remote calls an operation made and in which order. \<open>events\<close> logs the tags and
  arguments handed to the host's \<^verbatim>\<open>cloud.fire_event\<close>. The credential header, the log
  lines and \<^verbatim>\<open>time.sleep\<close> change neither a result nor the order of calls and are left
  out.
\<close>

record request =
  req_method :: string
  req_path :: string
  req_params :: pyval
  req_data :: pyval

record world =
  calls :: "request list"
  events :: "(string \<times> pyval) list"

text \<open>
  An action runs in a world and either raises (\<open>Inl\<close>) or returns (\<open>Inr\<close>), with the
  world it leaves; \<open>None\<close> is an action that never returns.
\<close>

type_synonym 'a act = "world \<Rightarrow> ((exn + 'a) \<times> world) option"

definition ret :: "'a \<Rightarrow> 'a act" where
  "ret x w = Some (Inr x, w)"

definition raise :: "exn \<Rightarrow> 'a act" where
  "raise e w = Some (Inl e, w)"

definition lift :: "exn + 'a \<Rightarrow> 'a act" where
  "lift r w = Some (r, w)"

definition bind_act :: "'a act \<Rightarrow> ('a \<Rightarrow> 'b act) \<Rightarrow> 'b act" where
  "bind_act m f w = (case m w of
       None \<Rightarrow> None
     | Some (Inl e, w') \<Rightarrow> Some (Inl e, w')
     | Some (Inr x, w') \<Rightarrow> f x w')"

text \<open>The tag \<^verbatim>\<open>"salt/cloud/{0}/<phase>".format(name)\<close> of an event.\<close>

definition event_tag :: "string \<Rightarrow> string \<Rightarrow> string" where
  "event_tag name phase = ''salt/cloud/'' @ name @ ''/'' @ phase"

definition fire_event :: "string \<Rightarrow> pyval \<Rightarrow> unit act" where
  "fire_event tag args w = Some (Inr (), w\<lparr>events := events w @ [(tag, args)]\<rparr>)"

section \<open>APIv4 transport: \<^verbatim>\<open>LinodeAPIv4._query\<close>\<close>

text \<open>
  What \<^verbatim>\<open>requests.request\<close> does with a request: it returns a response (status code and
  body, \<open>None\<close> for a body that is not JSON), or raises \<^verbatim>\<open>HTTPError\<close> carrying a response,
  or raises another transport exception. The provider answers a request knowing the
  requests made before it.
\<close>

datatype http_outcome =
    Response int "pyval option"
  | HTTPError "pyval option"
  | ConnError string

type_synonym provider = "request list \<Rightarrow> request \<Rightarrow> http_outcome"

text \<open>
  Lines 379--382: \<^verbatim>\<open>if decode: return result.json()\<close>, else \<^verbatim>\<open>return result\<close>; \<open>result\<close> is
  still \<^verbatim>\<open>None\<close> when the \<^verbatim>\<open>except\<close> branch fell through.
\<close>

definition query_v4_return :: "bool \<Rightarrow> (int \<times> pyval option) option \<Rightarrow> exn + pyval" where
  "query_v4_return decode result =
     (if decode then
        (case result of
           None \<Rightarrow> Inl AttributeError
         | Some (code, body) \<Rightarrow> (case body of None \<Rightarrow> Inl ValueError | Some v \<Rightarrow> Inr v))
      else
        (case result of
           None \<Rightarrow> Inr PNone
         | Some (code, body) \<Rightarrow> Inr (PObj ''Response'' [PInt code])))"

text \<open>
  Lines 367--382. In the \<^verbatim>\<open>except HTTPError\<close> branch the exception object is built and
  handed back with \<^verbatim>\<open>return\<close>: it is a value (\<open>Inr (PObj ''SaltCloudSystemExit'' ...)\<close>),
  not a raise. A response with an error status that \<^verbatim>\<open>requests\<close> returns normally is
  decoded like any other.
\<close>

definition query_v4_result :: "bool \<Rightarrow> http_outcome \<Rightarrow> exn + pyval" where
  "query_v4_result decode outcome =
     (case outcome of
        ConnError msg \<Rightarrow> Inl (RequestException msg)
      | Response code body \<Rightarrow> query_v4_return decode (Some (code, body))
      | HTTPError body \<Rightarrow>
          (case body of
             None \<Rightarrow> Inl ValueError
           | Some response \<Rightarrow>
               then_e (py_contains response ''error'') (\<lambda>has_error.
                 if has_error then
                   then_e (py_item response ''error'') (\<lambda>err.
                     Inr (PObj ''SaltCloudSystemExit'' [PStr ''Linode API reported error: '', err]))
                 else
                   then_e (py_contains response ''errors'') (\<lambda>has_errors.
                     if has_errors then
                       then_e (py_item response ''errors'') (\<lambda>errs.
                         then_e (py_join '', '' errs) (\<lambda>joined.
                           Inr (PObj ''SaltCloudSystemExit''
                                  [PStr ''Linode API reported error(s): '', PStr joined])))
                     else query_v4_return decode None))))"

text \<open>
  The request \<^verbatim>\<open>requests.request(method, url, json=data, ...)\<close> sends; \<open>path\<close> is the part
  of the URL after the API version.
\<close>

definition request_v4 :: "string \<Rightarrow> string \<Rightarrow> pyval \<Rightarrow> request" where
  "request_v4 method path data =
     \<lparr>req_method = method, req_path = path, req_params = PNone, req_data = data\<rparr>"

definition query_v4 :: "provider \<Rightarrow> string \<Rightarrow> string \<Rightarrow> pyval \<Rightarrow> pyval act" where
  "query_v4 remote path method data w =
     (let req = request_v4 method path data;
          decode = (method \<noteq> ''DELETE'')
      in Some (query_v4_result decode (remote (calls w) req), w\<lparr>calls := calls w @ [req]\<rparr>))"

section \<open>Looking instances up\<close>

definition get_linode_by_id_v4 :: "provider \<Rightarrow> pyval \<Rightarrow> pyval act" where
  "get_linode_by_id_v4 remote linode_id =
     query_v4 remote (''/linode/instances/'' @ py_str linode_id) ''GET'' PNone"

fun find_by_label :: "string \<Rightarrow> pyval list \<Rightarrow> exn + pyval" where
  "find_by_label name [] =
     Inl (SaltCloudNotFound (''The specified name, '' @ name @ '', could not be found.''))"
| "find_by_label name (instance # rest) =
     then_e (py_item instance ''label'') (\<lambda>label.
       if label = PStr name then Inr instance else find_by_label name rest)"

definition get_linode_by_name_v4 :: "provider \<Rightarrow> string \<Rightarrow> pyval act" where
  "get_linode_by_name_v4 remote name =
     bind_act (query_v4 remote ''/linode/instances'' ''GET'' PNone) (\<lambda>result.
       lift (then_e (py_get result ''data'' (PList [])) (\<lambda>instances.
             then_e (py_iter instances) (find_by_label name))))"

text \<open>
  \<^verbatim>\<open>LinodeAPI.get_linode\<close> (lines 317--328), over the two lookups a subclass provides.
  \<open>name\<close> and \<open>linode_id\<close> are what \<^verbatim>\<open>kwargs.get\<close> gives: \<open>None\<close> and \<open>PNone\<close> stand for a
  key that is absent or \<^verbatim>\<open>None\<close>.
\<close>

definition get_linode ::
  "(pyval \<Rightarrow> pyval act) \<Rightarrow> (string \<Rightarrow> pyval act) \<Rightarrow> string option \<Rightarrow> pyval \<Rightarrow> pyval act" where
  "get_linode by_id by_name name linode_id =
     (if linode_id \<noteq> PNone then by_id linode_id
      else case name of
             Some n \<Rightarrow> by_name n
           | None \<Rightarrow> raise (SaltCloudSystemExit
               ''The get_linode function requires either a 'name' or a 'linode_id'.''))"

definition get_linode_v4 :: "provider \<Rightarrow> string option \<Rightarrow> pyval \<Rightarrow> pyval act" where
  "get_linode_v4 remote = get_linode (get_linode_by_id_v4 remote) (get_linode_by_name_v4 remote)"

section \<open>Name validation: \<^verbatim>\<open>_validate_name\<close>\<close>

text \<open>
  The pattern \<^verbatim>\<open>^[a-zA-Z0-9][A-Za-z0-9_-]*[a-zA-Z0-9]$\<close> is a sequence of four items,
  matched from the start of the string as \<^verbatim>\<open>re.match\<close> does: an item leaves the list of
  inputs that can remain after it (the longest match first), and the pattern matches
  when some way through all items exists. Without \<^verbatim>\<open>re.MULTILINE\<close>, \<^verbatim>\<open>$\<close> holds at
  the end of the string and also just before a newline that ends the string.
\<close>

definition is_alnum :: "char \<Rightarrow> bool" where
  "is_alnum c =
     (let n = (of_char c :: nat)
      in (97 \<le> n \<and> n \<le> 122) \<or> (65 \<le> n \<and> n \<le> 90) \<or> (48 \<le> n \<and> n \<le> 57))"

definition is_label_char :: "char \<Rightarrow> bool" where
  "is_label_char c = (is_alnum c \<or> c = CHR ''_'' \<or> c = CHR ''-'')"

datatype re_item = One "char \<Rightarrow> bool" | Many "char \<Rightarrow> bool" | Dollar

fun many_rests :: "(char \<Rightarrow> bool) \<Rightarrow> string \<Rightarrow> string list" where
  "many_rests p [] = [[]]"
| "many_rests p (c # cs) = (if p c then many_rests p cs @ [c # cs] else [c # cs])"

fun item_rests :: "re_item \<Rightarrow> string \<Rightarrow> string list" where
  "item_rests (One p) s = (case s of [] \<Rightarrow> [] | c # cs \<Rightarrow> if p c then [cs] else [])"
| "item_rests (Many p) s = many_rests p s"
| "item_rests Dollar s = (if s = [] \<or> s = [CHR 0x0A] then [s] else [])"

fun re_match :: "re_item list \<Rightarrow> string \<Rightarrow> bool" where
  "re_match [] s = True"
| "re_match (item # items) s = list_ex (re_match items) (item_rests item s)"

definition name_regex :: "re_item list" where
  "name_regex = [One is_alnum, Many is_label_char, One is_alnum, Dollar]"

text \<open>
  Lines 2462--2489. \<^verbatim>\<open>six.text_type\<close> is the identity on a name that is text; the
  warning logged for a refused name has no effect on the result.
\<close>

definition validate_name :: "string \<Rightarrow> bool" where
  "validate_name name =
     (let name_length = length name
      in if name_length < 3 \<or> name_length > 48 then False
         else if \<not> re_match name_regex name then False
         else True)"

section \<open>APIv4 wait loop: \<^verbatim>\<open>_wait_for_entity_status\<close>\<close>

definition timed_out_msg :: "string \<Rightarrow> string \<Rightarrow> string \<Rightarrow> string" where
  "timed_out_msg entity_name identifier status =
     ''timed out while waiting for '' @ entity_name @ '' '' @ identifier
       @ '' to reach status '' @ status @ ''.''"

text \<open>
  The \<^verbatim>\<open>while True\<close> loop of lines 916--928. \<open>cur\<close> is the variable \<^verbatim>\<open>curr\<close>: the loop
  body never assigns it, so every round passes it on unchanged. \<open>ntimes\<close> is \<^verbatim>\<open>times\<close>,
  the float \<^verbatim>\<open>(timeout * 1000) / poll_interval\<close>; Python compares an integer with a float
  by their values.
\<close>

partial_function (option) wait_loop ::
  "pyval act \<Rightarrow> string \<Rightarrow> string \<Rightarrow> string \<Rightarrow> rat \<Rightarrow> int \<Rightarrow> world
     \<Rightarrow> ((exn + pyval) \<times> world) option" where
  "wait_loop getter status entity_name identifier ntimes cur w =
     (case getter w of
        None \<Rightarrow> None
      | Some (Inl e, w') \<Rightarrow> Some (Inl e, w')
      | Some (Inr result, w') \<Rightarrow>
          (case py_get result ''status'' PNone of
             Inl e \<Rightarrow> Some (Inl e, w')
           | Inr current_status \<Rightarrow>
               if current_status = PStr status then Some (Inr result, w')
               else if of_int cur \<le> ntimes then
                 wait_loop getter status entity_name identifier ntimes cur w'
               else Some (Inl (SaltCloudException
                                 (timed_out_msg entity_name identifier status)), w')))"

declare wait_loop.simps [code]

text \<open>
  Lines 904--914. \<open>poll_interval\<close> is what \<^verbatim>\<open>_get_poll_interval()\<close> reads from the
  provider configuration (500 by default); the division raises for a divisor of zero
  and for a quotient beyond the floats.
\<close>

definition wait_for_entity_status ::
  "int \<Rightarrow> pyval act \<Rightarrow> string \<Rightarrow> string \<Rightarrow> string \<Rightarrow> int \<Rightarrow> pyval act" where
  "wait_for_entity_status poll_interval getter status entity_name identifier timeout =
     bind_act (lift (py_truediv (timeout * 1000) poll_interval)) (\<lambda>ntimes.
       wait_loop getter status entity_name identifier ntimes 1)"

definition wait_for_disk_status :: "provider \<Rightarrow> int \<Rightarrow> pyval \<Rightarrow> pyval \<Rightarrow> string \<Rightarrow> pyval act" where
  "wait_for_disk_status remote poll_interval linode_id disk_id status =
     wait_for_entity_status poll_interval
       (query_v4 remote (''/linode/instance/'' @ py_str linode_id @ ''/disk/'' @ py_str disk_id)
          ''GET'' PNone)
       status ''instance disk'' (py_str linode_id @ ''/'' @ py_str disk_id) 120"

definition wait_for_linode_status :: "provider \<Rightarrow> int \<Rightarrow> pyval \<Rightarrow> string \<Rightarrow> pyval act" where
  "wait_for_linode_status remote poll_interval linode_id status =
     wait_for_entity_status poll_interval (get_linode_by_id_v4 remote linode_id)
       status ''linode'' (py_str linode_id) 120"

section \<open>APIv4 disks, configuration profiles, boot and clone\<close>

text \<open>Lines 878--901.\<close>

definition create_disk_v4 ::
  "provider \<Rightarrow> int \<Rightarrow> pyval \<Rightarrow> pyval \<Rightarrow> pyval \<Rightarrow> pyval \<Rightarrow> pyval \<Rightarrow> pyval \<Rightarrow> pyval \<Rightarrow> pyval act" where
  "create_disk_v4 remote poll_interval linode_id size' label authorized_keys filesystem image' root_pass =
     bind_act (query_v4 remote (''/linode/instance/'' @ py_str linode_id @ ''/disks'') ''POST''
                 (PDict [(''size'', size'), (''label'', label),
                         (''authorized_keys'', authorized_keys), (''filesystem'', filesystem),
                         (''image'', image'), (''root_pass'', root_pass)])) (\<lambda>disk.
     bind_act (lift (py_get disk ''id'' PNone)) (\<lambda>disk_id.
     bind_act (wait_for_disk_status remote poll_interval linode_id disk_id ''ready'') (\<lambda>_.
     ret disk)))"

text \<open>
  Lines 467--496. The arguments are the five \<^verbatim>\<open>kwargs.get(..., None)\<close> of the function,
  \<open>PNone\<close> for a key that is absent.
\<close>

definition create_config_v4 ::
  "provider \<Rightarrow> pyval \<Rightarrow> pyval \<Rightarrow> pyval \<Rightarrow> pyval \<Rightarrow> pyval \<Rightarrow> pyval act" where
  "create_config_v4 remote name linode_id root_disk_id swap_disk_id data_disk_id =
     (if \<not> py_truthy name \<and> \<not> py_truthy linode_id then
        raise (SaltCloudSystemExit
          (''The create_config function requires either a 'name' or 'linode_id'' @ [CHR 0x27]))
      else if PNone \<in> set [name, linode_id, root_disk_id, swap_disk_id] then
        raise (SaltCloudSystemExit
          (''The create_config functions requires a 'name', 'linode_id', ''
             @ [CHR 0x27] @ ''root_disk_id', and 'swap_disk_id'.''))
      else
        bind_act (lift (py_int root_disk_id)) (\<lambda>sda.
        bind_act (lift (if data_disk_id \<noteq> PNone
                        then then_e (py_int data_disk_id) (\<lambda>i. Inr (PDict [(''disk_id'', PInt i)]))
                        else Inr PNone)) (\<lambda>sdb.
        bind_act (lift (py_int swap_disk_id)) (\<lambda>sdc.
        query_v4 remote (''/linode/instances/'' @ py_str linode_id @ ''/configs'') ''POST''
          (PDict [(''label'', name),
                  (''devices'', PDict [(''sda'', PDict [(''disk_id'', PInt sda)]),
                                       (''sdb'', sdb),
                                       (''sdc'', PDict [(''disk_id'', PInt sdc)])])])))))"

text \<open>
  Lines 409--432. The call of line 426 passes \<^verbatim>\<open>body=...\<close>, a keyword that \<^verbatim>\<open>_query\<close>
  (line 338) does not take, so Python raises \<^verbatim>\<open>TypeError\<close> there, before any request is
  made and before the wait of line 431.
\<close>

definition boot_v4 ::
  "provider \<Rightarrow> int \<Rightarrow> string option \<Rightarrow> pyval \<Rightarrow> pyval \<Rightarrow> bool \<Rightarrow> bool act" where
  "boot_v4 remote poll_interval name kw_linode_id config_id check_running =
     bind_act (get_linode_v4 remote name kw_linode_id) (\<lambda>instance.
     bind_act (lift (py_get instance ''id'' PNone)) (\<lambda>linode_id.
     bind_act (lift (py_get instance ''label'' PNone)) (\<lambda>label.
     bind_act (if check_running then
                 bind_act (lift (py_item instance ''status'')) (\<lambda>status.
                   if status = PStr ''running'' then
                     raise (SaltCloudSystemExit
                       (''Cannot boot Linode '' @ py_str label @ '' ('' @ py_str linode_id
                          @ ''). Linode '' @ py_str label @ '' is already running.''))
                   else ret ())
               else ret ()) (\<lambda>_.
     raise TypeError))))"

text \<open>
  Lines 435--464 (the two deprecation warnings only log). \<^verbatim>\<open>create\<close> reaches it through
  the module's \<^verbatim>\<open>clone\<close> (line 2080), which hands \<open>kwargs\<close> to the configured interface.
\<close>

definition clone_v4 :: "provider \<Rightarrow> pyval \<Rightarrow> pyval \<Rightarrow> pyval \<Rightarrow> pyval act" where
  "clone_v4 remote linode_id location size' =
     (if PNone \<in> set [linode_id, location, size'] then
        raise (SaltCloudSystemExit
          ''The clone function requires a 'linode_id', 'location',and 'size' to be provided.'')
      else
        query_v4 remote (''/linode/instances/'' @ py_str linode_id @ ''/clone'') ''POST''
          (PDict [(''region'', location), (''type'', size')]))"

definition get_linode_type :: "provider \<Rightarrow> pyval \<Rightarrow> pyval act" where
  "get_linode_type remote linode_type =
     query_v4 remote (''/linode/types/'' @ py_str linode_type) ''GET'' PNone"

section \<open>APIv4 addresses: \<^verbatim>\<open>LinodeAPIv4._get_ips\<close>\<close>

text \<open>
  The loop of lines 869--873, with its two accumulators. \<open>is_private\<close> stands for
  \<^verbatim>\<open>ipaddress.ip_address(addr).is_private\<close> of the standard library, which is not part of
  the repository: \<open>None\<close> is the \<^verbatim>\<open>ValueError\<close> for something that is not an address.
\<close>

fun ips_loop ::
  "(pyval \<Rightarrow> bool option) \<Rightarrow> pyval list \<Rightarrow> pyval list \<Rightarrow> pyval list
     \<Rightarrow> exn + (pyval list \<times> pyval list)" where
  "ips_loop is_private [] public_ips private_ips = Inr (public_ips, private_ips)"
| "ips_loop is_private (addr # rest) public_ips private_ips =
     (case is_private addr of
        None \<Rightarrow> Inl ValueError
      | Some p \<Rightarrow>
          if p then ips_loop is_private rest public_ips (private_ips @ [addr])
          else ips_loop is_private rest (public_ips @ [addr]) private_ips)"

definition get_ips_v4 ::
  "provider \<Rightarrow> (pyval \<Rightarrow> bool option) \<Rightarrow> pyval \<Rightarrow> (pyval list \<times> pyval list) act" where
  "get_ips_v4 remote is_private linode_id =
     bind_act (get_linode_by_id_v4 remote linode_id) (\<lambda>instance.
     lift (then_e (py_get instance ''ipv4'' (PList [])) (\<lambda>ipv4.
           then_e (py_iter ipv4) (\<lambda>addrs. ips_loop is_private addrs [] []))))"

section \<open>APIv4 \<^verbatim>\<open>create\<close>\<close>

text \<open>
  The profile \<^verbatim>\<open>vm_\<close>, as the host's configuration accessor resolves it: \<open>vm_swap\<close> is
  \<^verbatim>\<open>_get_swap_size\<close> (256 when unset), \<open>vm_disk_size\<close> is \<^verbatim>\<open>_get_root_disk_size\<close> (\<open>None\<close>
  when unset), \<open>vm_ssh_interface\<close> is \<^verbatim>\<open>_get_ssh_interface\<close> (the constant
  \<^verbatim>\<open>"public_ips"\<close> of line 216 when unset), \<open>vm_assign_private_ip\<close> is \<^verbatim>\<open>_get_private_ip\<close>
  (false when unset). Of the profile keys that \<^verbatim>\<open>cloud.filter_event\<close> copies into an
  event, the record holds the name.

  \<open>vm_ssh_interface\<close> is a string object, because line 522 asks for its identity.
  \<^verbatim>\<open>is\<close> compares objects, not their characters. A string constant of a module is one
  object for each text, shared by every place that writes it (\<open>Const\<close>): the interpreter
  interns it. A string built while the program runs, as the loader of the configuration
  builds the values of a profile, is an object of its own (\<open>Loaded\<close>), whatever its
  characters.
\<close>

datatype strobj = Const string | Loaded string

definition str_value :: "strobj \<Rightarrow> string" where
  "str_value x = (case x of Const s \<Rightarrow> s | Loaded s \<Rightarrow> s)"

text \<open>\<^verbatim>\<open>x is "lit"\<close>, for a string constant \<^verbatim>\<open>"lit"\<close> of the module.\<close>

definition py_is_const :: "strobj \<Rightarrow> string \<Rightarrow> bool" where
  "py_is_const x lit = (x = Const lit)"

record vm =
  vm_name :: string
  vm_size :: pyval
  vm_image :: pyval
  vm_location :: pyval
  vm_clonefrom :: "string option"
  vm_ssh_pubkey :: pyval
  vm_ssh_interface :: strobj
  vm_assign_private_ip :: bool
  vm_password :: pyval
  vm_swap :: int
  vm_disk_size :: "int option"

text \<open>Lines 521--523: \<^verbatim>\<open>ssh_interface is "private_ips"\<close>.\<close>

definition use_private_ip :: "vm \<Rightarrow> bool" where
  "use_private_ip vm = py_is_const (vm_ssh_interface vm) ''private_ips''"

definition assign_private_ip :: "vm \<Rightarrow> bool" where
  "assign_private_ip vm = (vm_assign_private_ip vm \<or> use_private_ip vm)"

definition should_clone :: "vm \<Rightarrow> bool" where
  "should_clone vm = (case vm_clonefrom vm of None \<Rightarrow> False | Some n \<Rightarrow> n \<noteq> [])"

definition implicit_data_disk :: "vm \<Rightarrow> bool" where
  "implicit_data_disk vm = (vm_disk_size vm = None)"

text \<open>Lines 553--564: the body of the request that creates a new instance.\<close>

definition create_params :: "vm \<Rightarrow> pyval" where
  "create_params vm =
     PDict ([(''label'', PStr (vm_name vm)), (''type'', vm_size vm),
             (''region'', vm_location vm),
             (''private_ip'', PBool (assign_private_ip vm)),
             (''booted'', PBool (implicit_data_disk vm))]
            @ (if implicit_data_disk vm
               then [(''root_pass'', vm_password vm),
                     (''authorized_keys'', PList [vm_ssh_pubkey vm]),
                     (''image'', vm_image vm),
                     (''swap_size'', PInt (vm_swap vm))]
               else []))"

text \<open>Lines 535--566: clone the named instance, or create a new one.\<close>

definition create_provision :: "provider \<Rightarrow> vm \<Rightarrow> pyval act" where
  "create_provision remote vm =
     (if should_clone vm then
        bind_act (get_linode_v4 remote (vm_clonefrom vm) PNone) (\<lambda>clone_linode.
        bind_act (lift (py_item clone_linode ''id'')) (\<lambda>cid.
        bind_act (lift (py_item clone_linode ''region'')) (\<lambda>region.
        bind_act (lift (py_item clone_linode ''type'')) (\<lambda>ctype.
        bind_act (clone_v4 remote cid region ctype) (\<lambda>result.
        if assign_private_ip vm then
          bind_act (lift (py_item result ''id'')) (\<lambda>rid.
          bind_act (query_v4 remote ''/networking/ips'' ''POST''
                      (PDict [(''type'', PStr ''ipv4''), (''public'', PBool False),
                              (''linode_id'', rid)])) (\<lambda>_.
          ret result))
        else ret result)))))
      else query_v4 remote ''/linode/instances'' ''POST'' (create_params vm))"

text \<open>
  Lines 571--601, entered when neither cloning nor implicit: \<open>root_size\<close> is the disk size the
  profile gives. \<^verbatim>\<open>swap_disk\<close> is set to \<^verbatim>\<open>None\<close> on line 588 and the result of creating
  the swap disk is not assigned to it. Line 598 reads \<^verbatim>\<open>"linode_id", linode_id\<close> inside
  the dictionary; it is taken as the entry \<^verbatim>\<open>"linode_id": linode_id\<close>. The call passes no
  \<^verbatim>\<open>root_disk_id\<close>.
\<close>

definition create_disks :: "provider \<Rightarrow> int \<Rightarrow> vm \<Rightarrow> int \<Rightarrow> pyval \<Rightarrow> unit act" where
  "create_disks remote poll_interval vm root_size linode_id =
     bind_act (get_linode_type remote (vm_size vm)) (\<lambda>instance_spec.
     bind_act (lift (py_get instance_spec ''disk'' (PInt 0))) (\<lambda>disk_size_v.
     bind_act (lift (py_num disk_size_v)) (\<lambda>disk_size.
       let swap_size = vm_swap vm;
           root_disk_size = (if root_size = 0 then disk_size - swap_size else root_size)
       in if root_disk_size + swap_size > disk_size then
            raise (SaltCloudException
              (''Insufficient space available for type '' @ [CHR 0x27] @ py_str (vm_size vm)
                 @ [CHR 0x27] @ '' ('' @ py_str disk_size_v @ '')''))
          else if root_disk_size \<le> 0 then
            raise (SaltCloudException ''Disk must be allocated for the root disk partition'')
          else
            let swap_disk = PNone in
            bind_act (if swap_size \<noteq> 0 then
                        bind_act (create_disk_v4 remote poll_interval linode_id (PInt swap_size)
                                    PNone PNone (PStr ''swap'') PNone PNone) (\<lambda>_. ret ())
                      else ret ()) (\<lambda>_.
            bind_act (create_disk_v4 remote poll_interval linode_id (PInt root_disk_size)
                        PNone (PList [vm_ssh_pubkey vm]) (PStr ''ext4'') (vm_image vm)
                        (vm_password vm)) (\<lambda>data_disk.
            bind_act (lift (py_item data_disk ''id'')) (\<lambda>data_disk_id.
            bind_act (lift (if py_truthy swap_disk then py_item swap_disk ''id''
                            else Inr PNone)) (\<lambda>swap_disk_id.
            bind_act (create_config_v4 remote (PStr ''Default Config'') linode_id PNone
                        swap_disk_id data_disk_id) (\<lambda>_.
            ret ()))))))))"

text \<open>\<^verbatim>\<open>ret.update(data)\<close>.\<close>

definition py_update :: "pyval \<Rightarrow> (string \<times> pyval) list \<Rightarrow> exn + pyval" where
  "py_update d kvs = (case d of
       PDict base \<Rightarrow> Inr (PDict (fold (\<lambda>kv. AList.update (fst kv) (snd kv)) kvs base))
     | _ \<Rightarrow> Inl AttributeError)"

text \<open>Lines 620--623: the address handed to the bootstrap as \<^verbatim>\<open>vm_["ssh_host"]\<close>.\<close>

definition ssh_host_v4 :: "vm \<Rightarrow> pyval list \<Rightarrow> pyval list \<Rightarrow> exn + pyval" where
  "ssh_host_v4 vm public_ips private_ips =
     (if use_private_ip vm then py_first (PList private_ips) else py_first (PList public_ips))"

text \<open>
  Lines 606--652, what \<^verbatim>\<open>create\<close> does once the instance is booted. \<open>bootstrap\<close> is the
  host's \<^verbatim>\<open>cloud.bootstrap\<close>, given the profile and its \<^verbatim>\<open>ssh_host\<close>.
\<close>

definition create_finish ::
  "provider \<Rightarrow> (pyval \<Rightarrow> bool option) \<Rightarrow> (vm \<Rightarrow> pyval \<Rightarrow> pyval) \<Rightarrow> vm \<Rightarrow> pyval \<Rightarrow> pyval
     \<Rightarrow> pyval act" where
  "create_finish remote is_private bootstrap vm result linode_id =
     bind_act (lift (py_item result ''id'')) (\<lambda>rid.
     bind_act (get_linode_by_id_v4 remote rid) (\<lambda>_.
     bind_act (get_ips_v4 remote is_private linode_id) (\<lambda>(public_ips, private_ips).
     bind_act (lift (py_item result ''label'')) (\<lambda>label.
     bind_act (lift (py_item result ''type'')) (\<lambda>itype.
     bind_act (lift (py_item result ''status'')) (\<lambda>status.
     bind_act (lift (py_item result ''ipv4'')) (\<lambda>ipv4.
     bind_act (lift (py_item result ''ipv6'')) (\<lambda>ipv6.
     bind_act (lift (ssh_host_v4 vm public_ips private_ips)) (\<lambda>ssh_host.
     bind_act (fire_event (event_tag (vm_name vm) ''waiting_for_ssh'')
                 (PDict [(''ip_address'', ssh_host)])) (\<lambda>_.
     bind_act (lift (py_update (bootstrap vm ssh_host)
                 [(''id'', linode_id), (''name'', label), (''size'', itype), (''state'', status),
                  (''ipv4'', ipv4), (''ipv6'', ipv6), (''public_ips'', PList public_ips),
                  (''private_ips'', PList private_ips)])) (\<lambda>r.
     bind_act (fire_event (event_tag (vm_name vm) ''created'')
                 (PDict [(''name'', PStr (vm_name vm))])) (\<lambda>_.
     ret r))))))))))))"

text \<open>\<^verbatim>\<open>LinodeAPIv4.create\<close>, lines 499--652.\<close>

definition create_v4 ::
  "provider \<Rightarrow> (pyval \<Rightarrow> bool option) \<Rightarrow> int \<Rightarrow> (vm \<Rightarrow> pyval \<Rightarrow> pyval) \<Rightarrow> vm \<Rightarrow> pyval act" where
  "create_v4 remote is_private poll_interval bootstrap vm =
     (if \<not> validate_name (vm_name vm) then ret (PBool False)
      else
        bind_act (fire_event (event_tag (vm_name vm) ''creating'')
                    (PDict [(''name'', PStr (vm_name vm))])) (\<lambda>_.
        bind_act (create_provision remote vm) (\<lambda>result.
        bind_act (lift (py_get result ''id'' PNone)) (\<lambda>linode_id.
        bind_act (case vm_disk_size vm of
                    Some root_size \<Rightarrow>
                      if \<not> should_clone vm then
                        create_disks remote poll_interval vm root_size linode_id
                      else ret ()
                  | None \<Rightarrow> ret ()) (\<lambda>_.
        bind_act (boot_v4 remote poll_interval None linode_id PNone False) (\<lambda>_.
        create_finish remote is_private bootstrap vm result linode_id))))))"

section \<open>APIv4 \<^verbatim>\<open>start\<close>, \<^verbatim>\<open>stop\<close>\<close>

text \<open>Lines 773--792.\<close>

definition start_v4 :: "provider \<Rightarrow> int \<Rightarrow> string \<Rightarrow> pyval act" where
  "start_v4 remote poll_interval name =
     bind_act (get_linode_by_name_v4 remote name) (\<lambda>instance.
     bind_act (lift (py_get instance ''id'' PNone)) (\<lambda>linode_id.
     bind_act (lift (py_item instance ''status'')) (\<lambda>status.
       if status = PStr ''running'' then
         ret (PDict [(''success'', PBool True), (''action'', PStr ''start''),
                     (''state'', PStr ''Running''), (''msg'', PStr ''Machine already running'')])
       else
         bind_act (query_v4 remote (''/linode/instances/'' @ py_str linode_id @ ''/boot'')
                     ''POST'' PNone) (\<lambda>_.
         bind_act (wait_for_linode_status remote poll_interval linode_id ''running'') (\<lambda>_.
         ret (PDict [(''success'', PBool True), (''state'', PStr ''Running''),
                     (''action'', PStr ''start'')]))))))"

text \<open>Lines 795--815.\<close>

definition stop_v4 :: "provider \<Rightarrow> int \<Rightarrow> string \<Rightarrow> pyval act" where
  "stop_v4 remote poll_interval name =
     bind_act (get_linode_by_name_v4 remote name) (\<lambda>instance.
     bind_act (lift (py_get instance ''id'' PNone)) (\<lambda>linode_id.
     bind_act (lift (py_item instance ''status'')) (\<lambda>status.
       if status = PStr ''offline'' then
         ret (PDict [(''success'', PBool True), (''action'', PStr ''stop''),
                     (''state'', PStr ''Stopped''), (''msg'', PStr ''Machine already stopped'')])
       else
         bind_act (query_v4 remote (''/linode/instances/'' @ py_str linode_id @ ''/shutdown'')
                     ''POST'' PNone) (\<lambda>_.
         bind_act (wait_for_linode_status remote poll_interval linode_id ''offline'') (\<lambda>_.
         ret (PDict [(''success'', PBool True), (''state'', PStr ''Stopped''),
                     (''action'', PStr ''stop'')]))))))"

section \<open>APIv3 transport: \<^verbatim>\<open>LinodeAPIv3._query\<close>\<close>

text \<open>
  The host's \<^verbatim>\<open>http.query\<close> answers with a dictionary holding the decoded body under
  \<^verbatim>\<open>dict\<close> and the status under \<^verbatim>\<open>status\<close>, or raises. The pacing by \<^verbatim>\<open>LASTCALL\<close> only
  sleeps and is left out.
\<close>

type_synonym provider3 = "request list \<Rightarrow> request \<Rightarrow> exn + pyval"

text \<open>Lines 978--984; an \<open>action\<close> that is empty stands for one that is not given.\<close>

definition query_v3_args :: "pyval \<Rightarrow> string \<Rightarrow> string \<Rightarrow> pyval \<Rightarrow> (string \<times> pyval) list" where
  "query_v3_args apikey action command args =
     (let a0 = (case args of PDict kvs \<Rightarrow> kvs | _ \<Rightarrow> []);
          a1 = (if ''api_key'' \<notin> set (map fst a0) then a0 @ [(''api_key'', apikey)] else a0)
      in if action \<noteq> [] \<and> ''api_action'' \<notin> set (map fst a1)
         then a1 @ [(''api_action'', PStr (action @ ''.'' @ command))]
         else a1)"

text \<open>The loop of lines 1016--1021 over \<^verbatim>\<open>ERRORARRAY\<close>, collecting \<^verbatim>\<open>error_list\<close>.\<close>

fun error_loop :: "pyval list \<Rightarrow> pyval list \<Rightarrow> exn + pyval list" where
  "error_loop [] error_list = Inr error_list"
| "error_loop (error # rest) error_list =
     then_e (py_item error ''ERRORMESSAGE'') (\<lambda>msg.
       if msg = PStr ''Authentication failed''
       then Inl (SaltCloudSystemExit ''Linode API Key is expired or invalid'')
       else error_loop rest (error_list @ [msg]))"

text \<open>Lines 1013--1029, on the answer of \<^verbatim>\<open>http.query\<close>.\<close>

definition query_v3_check :: "pyval \<Rightarrow> exn + pyval" where
  "query_v3_check result =
     then_e (py_item result ''dict'') (\<lambda>d.
     then_e (py_contains d ''ERRORARRAY'') (\<lambda>has_errors.
     then_e (if has_errors then
               then_e (py_item d ''ERRORARRAY'') (\<lambda>arr.
                 if py_truthy arr then
                   then_e (py_iter arr) (\<lambda>errs.
                   then_e (error_loop errs []) (\<lambda>error_list.
                   then_e (join_strs '', '' error_list) (\<lambda>joined.
                     Inl (SaltCloudException (''Linode API reported error(s): '' @ joined)))))
                 else Inr ())
             else Inr ()) (\<lambda>_.
     then_e (py_item result ''status'') (\<lambda>_.
     Inr d))))"

text \<open>The request handed to \<^verbatim>\<open>http.query\<close>, with the default method and URL.\<close>

definition request_v3 :: "pyval \<Rightarrow> string \<Rightarrow> string \<Rightarrow> pyval \<Rightarrow> request" where
  "request_v3 apikey action command args =
     \<lparr>req_method = ''GET'', req_path = ''https://api.linode.com/'',
      req_params = PDict (query_v3_args apikey action command args), req_data = PNone\<rparr>"

definition query_v3 :: "provider3 \<Rightarrow> pyval \<Rightarrow> string \<Rightarrow> string \<Rightarrow> pyval \<Rightarrow> pyval act" where
  "query_v3 remote apikey action command args w =
     (let req = request_v3 apikey action command args
      in Some (then_e (remote (calls w) req) query_v3_check, w\<lparr>calls := calls w @ [req]\<rparr>))"

section \<open>APIv3 job polling: \<^verbatim>\<open>_wait_for_job\<close>\<close>

text \<open>
  \<^verbatim>\<open>==\<close> on decoded JSON: numbers (booleans among them) compare by value, anything else
  by structure.
\<close>

definition py_eq :: "pyval \<Rightarrow> pyval \<Rightarrow> bool" where
  "py_eq a b = (case (py_num a, py_num b) of (Inr x, Inr y) \<Rightarrow> x = y | _ \<Rightarrow> a = b)"

text \<open>The condition of line 1714, with the short circuit of \<^verbatim>\<open>and\<close>.\<close>

definition job_done :: "pyval \<Rightarrow> pyval \<Rightarrow> exn + bool" where
  "job_done jobs_result job_id =
     then_e (py_first jobs_result) (\<lambda>j.
     then_e (py_item j ''JOBID'') (\<lambda>jid.
       if py_eq jid job_id then
         then_e (py_first jobs_result) (\<lambda>j'.
         then_e (py_item j' ''HOST_SUCCESS'') (\<lambda>ok. Inr (py_eq ok (PInt 1))))
       else Inr False))"

text \<open>The \<^verbatim>\<open>for\<close> loop of lines 1712--1724; the number is the rounds still to run.\<close>

fun job_loop :: "provider3 \<Rightarrow> pyval \<Rightarrow> pyval \<Rightarrow> pyval \<Rightarrow> nat \<Rightarrow> bool act" where
  "job_loop remote apikey linode_id job_id 0 = ret False"
| "job_loop remote apikey linode_id job_id (Suc n) =
     bind_act (query_v3 remote apikey ''linode'' ''job.list'' (PDict [(''LinodeID'', linode_id)]))
       (\<lambda>r.
     bind_act (lift (py_item r ''DATA'')) (\<lambda>jobs_result.
     bind_act (lift (job_done jobs_result job_id)) (\<lambda>done.
       if done then ret True else job_loop remote apikey linode_id job_id n)))"

text \<open>
  \<^verbatim>\<open>int(timeout / interval)\<close> with \<^verbatim>\<open>interval = 5\<close>: the float quotient, cut towards
  zero.
\<close>

definition iterations :: "int \<Rightarrow> exn + int" where
  "iterations timeout = then_e (py_truediv timeout 5) (\<lambda>x. Inr (py_trunc x))"

text \<open>Lines 1709--1724; \<^verbatim>\<open>range(0, iterations)\<close> is empty for a negative number.\<close>

definition wait_for_job :: "provider3 \<Rightarrow> pyval \<Rightarrow> pyval \<Rightarrow> pyval \<Rightarrow> int \<Rightarrow> bool act" where
  "wait_for_job remote apikey linode_id job_id timeout =
     bind_act (lift (iterations timeout)) (\<lambda>n.
       job_loop remote apikey linode_id job_id (nat n))"

section \<open>APIv3 status vocabulary\<close>

text \<open>\<^verbatim>\<open>LINODE_STATUS\<close> (lines 87--95): name, code, description.\<close>

definition LINODE_STATUS :: "(string \<times> int \<times> string) list" where
  "LINODE_STATUS =
     [(''boot_failed'', -2, ''Boot Failed (not in use)''),
      (''beeing_created'', -1, ''Being Created''),
      (''brand_new'', 0, ''Brand New''),
      (''running'', 1, ''Running''),
      (''poweroff'', 2, ''Powered Off''),
      (''shutdown'', 3, ''Shutting Down (not in use)''),
      (''save_to_disk'', 4, ''Saved to Disk (not in use)'')]"

text \<open>
  The loop of lines 1959--1961: \<^verbatim>\<open>int(status_id)\<close> is evaluated in every round; \<open>None\<close>
  is a loop that ended without \<^verbatim>\<open>return\<close>.
\<close>

fun descr_loop :: "(string \<times> int \<times> string) list \<Rightarrow> pyval \<Rightarrow> exn + pyval option" where
  "descr_loop [] status_id = Inr None"
| "descr_loop ((status_name, code, descr) # rest) status_id =
     then_e (py_int status_id) (\<lambda>i.
       if code = i then Inr (Some (PStr descr)) else descr_loop rest status_id)"

text \<open>
  The body of \<^verbatim>\<open>_get_status_descr_by_id\<close> (lines 1959--1962), given its parameter. The
  last line looks \<open>status_id\<close> up among the names of the table.
\<close>

definition status_descr :: "pyval \<Rightarrow> exn + pyval" where
  "status_descr status_id =
     then_e (descr_loop LINODE_STATUS status_id) (\<lambda>found.
       case found of
         Some descr \<Rightarrow> Inr descr
       | None \<Rightarrow>
           Inr (case status_id of
                  PStr s \<Rightarrow>
                    (case map_of LINODE_STATUS s of
                       Some (code, descr) \<Rightarrow> PDict [(''code'', PInt code), (''descr'', PStr descr)]
                     | None \<Rightarrow> PNone)
                | _ \<Rightarrow> PNone))"

text \<open>
  \<^verbatim>\<open>_get_status_descr_by_id\<close> (line 1952) is defined in the body of the class
  \<^verbatim>\<open>LinodeAPIv3\<close> with the one parameter \<^verbatim>\<open>status_id\<close>: there is no \<^verbatim>\<open>self\<close>. The function
  is given by what it does with the list of its positional arguments; any number of
  them other than one is a \<^verbatim>\<open>TypeError\<close>, raised before the body runs.
\<close>

definition get_status_descr_by_id :: "pyval list \<Rightarrow> exn + pyval" where
  "get_status_descr_by_id args =
     (case args of [status_id] \<Rightarrow> status_descr status_id | _ \<Rightarrow> Inl TypeError)"

text \<open>
  A call \<^verbatim>\<open>self.f(x, ...)\<close> of a function \<open>f\<close> of the class: Python hands the instance over
  as the first positional argument. Every call of \<^verbatim>\<open>_get_status_descr_by_id\<close> in the
  driver has this form (lines 1294, 1746, 1757, 1786, 1817 and 1833).
\<close>

definition bound_call :: "(pyval list \<Rightarrow> exn + 'a) \<Rightarrow> pyval \<Rightarrow> pyval list \<Rightarrow> exn + 'a" where
  "bound_call f self args = f (self # args)"

section \<open>APIv3 addresses: \<^verbatim>\<open>LinodeAPIv3._get_ips\<close>\<close>

text \<open>
  The loop of lines 1668--1677. \<open>res\<close> (the source's \<^verbatim>\<open>ret\<close>) maps a node id to its public and private lists, in
  the order the ids were first seen.
\<close>

fun ip_list_loop ::
  "pyval list \<Rightarrow> (string \<times> pyval list \<times> pyval list) list
     \<Rightarrow> exn + (string \<times> pyval list \<times> pyval list) list" where
  "ip_list_loop [] res = Inr res"
| "ip_list_loop (item # rest) res =
     then_e (py_item item ''LINODEID'') (\<lambda>lid.
     then_e (py_item item ''ISPUBLIC'') (\<lambda>ispublic.
       let node_id = py_str lid;
           is_public = py_eq ispublic (PInt 1);
           res1 = (if map_of res node_id = None then res @ [(node_id, [], [])] else res)
       in then_e (py_item item ''IPADDRESS'') (\<lambda>addr.
            ip_list_loop rest
              (AList.map_entry node_id
                 (\<lambda>(public_ips, private_ips).
                    if is_public then (public_ips @ [addr], private_ips)
                    else (public_ips, private_ips @ [addr]))
                 res1))))"

definition ips_dict :: "pyval list \<times> pyval list \<Rightarrow> pyval" where
  "ips_dict p = PDict [(''public_ips'', PList (fst p)), (''private_ips'', PList (snd p))]"

text \<open>Lines 1653--1690.\<close>

definition get_ips_v3 :: "provider3 \<Rightarrow> pyval \<Rightarrow> pyval \<Rightarrow> pyval act" where
  "get_ips_v3 remote apikey linode_id =
     bind_act (if py_truthy linode_id
               then query_v3 remote apikey ''linode'' ''ip.list'' (PDict [(''LinodeID'', linode_id)])
               else query_v3 remote apikey ''linode'' ''ip.list'' PNone) (\<lambda>ips.
     lift (then_e (py_item ips ''DATA'') (\<lambda>data.
           then_e (py_iter data) (\<lambda>items.
           then_e (ip_list_loop items []) (\<lambda>res.
             if py_truthy linode_id then
               (case map_of res (py_str linode_id) of
                  Some matching_id \<Rightarrow> Inr (ips_dict matching_id)
                | None \<Rightarrow> Inr (ips_dict ([], [])))
             else Inr (PDict (map (\<lambda>(node_id, p). (node_id, ips_dict p)) res)))))))"

text \<open>
  Lines 1299--1302 of \<^verbatim>\<open>LinodeAPIv3.create\<close>: \<open>ips\<close> is what \<^verbatim>\<open>_get_ips(node_id)\<close> returned
  and \<open>ssh_interface\<close> what \<^verbatim>\<open>_get_ssh_interface\<close> read. The comparison is \<^verbatim>\<open>==\<close>, by
  the characters.
\<close>

definition ssh_host_v3 :: "strobj \<Rightarrow> pyval \<Rightarrow> exn + pyval" where
  "ssh_host_v3 ssh_interface ips =
     (if str_value ssh_interface = ''private_ips''
      then then_e (py_item ips ''private_ips'') py_first
      else then_e (py_item ips ''public_ips'') py_first)"

section \<open>A stub provider and a sample profile\<close>

text \<open>
  Concrete inputs for the examples below: an account with one running instance
  \<^verbatim>\<open>web-01\<close> of a size class with 25600 MB of disk, whose disks are ready at the first
  probe; an APIv3 account whose job 99 stays pending; and the profile of the
  explicit-disk scenario.
\<close>

definition instance_web01 :: pyval where
  "instance_web01 =
     PDict [(''id'', PInt 1), (''label'', PStr ''web-01''), (''status'', PStr ''running''),
            (''type'', PStr ''g6-standard-1''), (''region'', PStr ''eu-west''),
            (''ipv4'', PList [PStr ''45.33.1.2'', PStr ''192.168.1.5'']),
            (''ipv6'', PStr ''2600:3c00::1/64'')]"

definition instance_db01 :: pyval where
  "instance_db01 =
     PDict [(''id'', PInt 2), (''label'', PStr ''db-01''), (''status'', PStr ''offline''),
            (''type'', PStr ''g6-standard-1''), (''region'', PStr ''eu-west''),
            (''ipv4'', PList [PStr ''45.33.1.3'']),
            (''ipv6'', PStr ''2600:3c00::2/64'')]"

definition stub_provider :: provider where
  "stub_provider history req =
     (let m = req_method req; p = req_path req in
      if m = ''GET'' \<and> p = ''/linode/instances'' then
        Response 200 (Some (PDict [(''data'', PList [instance_web01, instance_db01])]))
      else if m = ''GET'' \<and> p = ''/linode/instances/1'' then
        Response 200 (Some instance_web01)
      else if m = ''POST'' \<and> p = ''/linode/instances'' then
        Response 200 (Some instance_web01)
      else if m = ''GET'' \<and> p = ''/linode/types/g6-standard-1'' then
        Response 200 (Some (PDict [(''id'', PStr ''g6-standard-1''), (''disk'', PInt 25600)]))
      else if m = ''POST'' \<and> p = ''/linode/instance/1/disks'' then
        Response 200 (Some (PDict [(''id'', PInt (int (length history))),
                                   (''status'', PStr ''not ready'')]))
      else if m = ''GET'' \<and> starts_with p ''/linode/instance/1/disk/'' then
        Response 200 (Some (PDict [(''status'', PStr ''ready'')]))
      else
        Response 404 (Some (PDict [(''errors'', PList [PDict [(''reason'', PStr ''Not found'')]])])))"

definition world0 :: world where
  "world0 = \<lparr>calls = [], events = []\<rparr>"

definition vm_web01 :: vm where
  "vm_web01 = \<lparr>vm_name = ''web-01'', vm_size = PStr ''g6-standard-1'',
     vm_image = PStr ''linode/centos7'', vm_location = PStr ''eu-west'', vm_clonefrom = None,
     vm_ssh_pubkey = PStr ''ssh-rsa AAAA'', vm_ssh_interface = Const ''public_ips'',
     vm_assign_private_ip = False, vm_password = PStr ''F00barbaz'', vm_swap = 256,
     vm_disk_size = Some 20000\<rparr>"

definition stub_is_private :: "pyval \<Rightarrow> bool option" where
  "stub_is_private addr = (case addr of PStr s \<Rightarrow> Some (starts_with s ''192.168.'' \<or> starts_with s ''10.'') | _ \<Rightarrow> None)"

definition stub_bootstrap :: "vm \<Rightarrow> pyval \<Rightarrow> pyval" where
  "stub_bootstrap vm ssh_host = PDict [(''deployed'', PBool True)]"


definition job_pending :: pyval where
  "job_pending = PDict [(''JOBID'', PInt 99), (''HOST_SUCCESS'', PStr [])]"

definition stub_provider3 :: provider3 where
  "stub_provider3 history req =
     (let action = (case req_params req of PDict kvs \<Rightarrow> map_of kvs ''api_action'' | _ \<Rightarrow> None) in
      if action = Some (PStr ''linode.job.list'') then
        Inr (PDict [(''dict'', PDict [(''ERRORARRAY'', PList []), (''DATA'', PList [job_pending])]),
                    (''status'', PInt 200)])
      else if action = Some (PStr ''linode.ip.list'') then
        Inr (PDict [(''dict'', PDict [(''ERRORARRAY'', PList []),
                       (''DATA'', PList
                          [PDict [(''LINODEID'', PInt 7), (''ISPUBLIC'', PInt 1),
                                  (''IPADDRESS'', PStr ''10.0.0.5'')],
                           PDict [(''LINODEID'', PInt 7), (''ISPUBLIC'', PInt 0),
                                  (''IPADDRESS'', PStr ''45.33.1.2'')]])]),
                    (''status'', PInt 200)])
      else
        Inr (PDict [(''dict'', PDict [(''ERRORARRAY'',
                       PList [PDict [(''ERRORCODE'', PInt 4),
                                     (''ERRORMESSAGE'', PStr ''Authentication failed'')]])]),
                    (''status'', PInt 200)]))"

text \<open>
  Two providers that refuse a request: one answers with status 401 and an error
  envelope, the other makes \<^verbatim>\<open>requests\<close> raise \<^verbatim>\<open>HTTPError\<close> with one.
\<close>

definition unauthorized_provider :: provider where
  "unauthorized_provider history req =
     Response 401 (Some (PDict [(''errors'', PList [PDict [(''reason'', PStr ''Invalid Token'')]])]))"

definition raising_provider :: provider where
  "raising_provider history req = HTTPError (Some (PDict [(''errors'', PList [PStr ''Invalid Token''])]))"

section \<open>Vocabulary for the address properties\<close>

text \<open>
  What the APIv3 loop reads off one record of \<^verbatim>\<open>linode.ip.list\<close>: the node it belongs
  to (as \<^verbatim>\<open>six.text_type\<close> renders it), whether the provider flags it public, and the
  address. \<open>public_of\<close> and \<open>private_of\<close> are the addresses of a node's records with and
  without the flag, in the order of the listing; \<open>ips_of\<close> reads the lists the loop has
  collected for a node.
\<close>

definition ip_record_ok :: "pyval \<Rightarrow> bool" where
  "ip_record_ok item =
     (case (py_item item ''LINODEID'', py_item item ''ISPUBLIC'', py_item item ''IPADDRESS'') of
        (Inr l, Inr p, Inr a) \<Rightarrow> True
      | _ \<Rightarrow> False)"

definition ip_node :: "pyval \<Rightarrow> string" where
  "ip_node item = (case py_item item ''LINODEID'' of Inr l \<Rightarrow> py_str l | Inl e \<Rightarrow> [])"

definition ip_flagged_public :: "pyval \<Rightarrow> bool" where
  "ip_flagged_public item =
     (case py_item item ''ISPUBLIC'' of Inr p \<Rightarrow> py_eq p (PInt 1) | Inl e \<Rightarrow> False)"

definition ip_address :: "pyval \<Rightarrow> pyval" where
  "ip_address item = (case py_item item ''IPADDRESS'' of Inr a \<Rightarrow> a | Inl e \<Rightarrow> PNone)"

definition public_of :: "string \<Rightarrow> pyval list \<Rightarrow> pyval list" where
  "public_of node items =
     map ip_address (filter (\<lambda>item. ip_node item = node \<and> ip_flagged_public item) items)"

definition private_of :: "string \<Rightarrow> pyval list \<Rightarrow> pyval list" where
  "private_of node items =
     map ip_address (filter (\<lambda>item. ip_node item = node \<and> \<not> ip_flagged_public item) items)"

definition ips_of :: "(string \<times> pyval list \<times> pyval list) list \<Rightarrow> string \<Rightarrow> pyval list \<times> pyval list" where
  "ips_of res node = (case map_of res node of Some p \<Rightarrow> p | None \<Rightarrow> ([], []))"

section \<open>Vocabulary for the wait loops\<close>

text \<open>
  A probe that does not satisfy the target: for the job loop, the answer of the provider
  to the \<^verbatim>\<open>linode.job.list\<close> request passes the error check and its first job is not the
  finished job waited for; for the status loop, the observation has a status other than
  the target.
\<close>

definition job_request :: "pyval \<Rightarrow> pyval \<Rightarrow> request" where
  "job_request apikey linode_id =
     request_v3 apikey ''linode'' ''job.list'' (PDict [(''LinodeID'', linode_id)])"

definition job_not_done :: "exn + pyval \<Rightarrow> pyval \<Rightarrow> bool" where
  "job_not_done answer job_id =
     (case then_e answer query_v3_check of
        Inl e \<Rightarrow> False
      | Inr d \<Rightarrow>
          (case py_item d ''DATA'' of
             Inl e \<Rightarrow> False
           | Inr jobs_result \<Rightarrow> job_done jobs_result job_id = Inr False))"

definition status_differs :: "pyval \<Rightarrow> string \<Rightarrow> bool" where
  "status_differs result status =
     (case py_get result ''status'' PNone of
        Inl e \<Rightarrow> False
      | Inr current_status \<Rightarrow> current_status \<noteq> PStr status)"

section \<open>Properties\<close>

subsection \<open>What the name pattern matches\<close>

lemma many_rests_iff:
  "r \<in> set (many_rests p s) \<longleftrightarrow> (\<exists>pre. s = pre @ r \<and> (\<forall>x\<in>set pre. p x))"
proof (induction s)
  case Nil
  then show ?case by auto
next
  case (Cons c cs)
  show ?case
  proof (cases "p c")
    case True
    have "r \<in> set (many_rests p (c # cs)) \<longleftrightarrow> r = c # cs \<or> (\<exists>pre. cs = pre @ r \<and> (\<forall>x\<in>set pre. p x))"
      using True Cons.IH by auto
    also have "\<dots> \<longleftrightarrow> (\<exists>pre. c # cs = pre @ r \<and> (\<forall>x\<in>set pre. p x))"
    proof
      assume "r = c # cs \<or> (\<exists>pre. cs = pre @ r \<and> (\<forall>x\<in>set pre. p x))"
      then show "\<exists>pre. c # cs = pre @ r \<and> (\<forall>x\<in>set pre. p x)"
      proof
        assume "r = c # cs"
        then have "c # cs = [] @ r \<and> (\<forall>x\<in>set []. p x)" by simp
        then show ?thesis by blast
      next
        assume "\<exists>pre. cs = pre @ r \<and> (\<forall>x\<in>set pre. p x)"
        then obtain pre where "cs = pre @ r" "\<forall>x\<in>set pre. p x" by blast
        then have "c # cs = (c # pre) @ r \<and> (\<forall>x\<in>set (c # pre). p x)" using True by simp
        then show ?thesis by blast
      qed
    next
      assume "\<exists>pre. c # cs = pre @ r \<and> (\<forall>x\<in>set pre. p x)"
      then obtain pre where pre: "c # cs = pre @ r" "\<forall>x\<in>set pre. p x" by blast
      show "r = c # cs \<or> (\<exists>pre. cs = pre @ r \<and> (\<forall>x\<in>set pre. p x))"
      proof (cases pre)
        case Nil
        then show ?thesis using pre by simp
      next
        case (Cons a pre')
        then have "cs = pre' @ r \<and> (\<forall>x\<in>set pre'. p x)" using pre by simp
        then show ?thesis by blast
      qed
    qed
    finally show ?thesis .
  next
    case False
    have "r \<in> set (many_rests p (c # cs)) \<longleftrightarrow> r = c # cs" using False by simp
    also have "\<dots> \<longleftrightarrow> (\<exists>pre. c # cs = pre @ r \<and> (\<forall>x\<in>set pre. p x))"
    proof
      assume "r = c # cs"
      then have "c # cs = [] @ r \<and> (\<forall>x\<in>set []. p x)" by simp
      then show "\<exists>pre. c # cs = pre @ r \<and> (\<forall>x\<in>set pre. p x)" by blast
    next
      assume "\<exists>pre. c # cs = pre @ r \<and> (\<forall>x\<in>set pre. p x)"
      then obtain pre where pre: "c # cs = pre @ r" "\<forall>x\<in>set pre. p x" by blast
      show "r = c # cs"
      proof (cases pre)
        case Nil
        then show ?thesis using pre by simp
      next
        case (Cons a pre')
        then have "a = c" "p a" using pre by auto
        then show ?thesis using False by simp
      qed
    qed
    finally show ?thesis .
  qed
qed

lemma one_rests_iff: "r \<in> set (item_rests (One p) s) \<longleftrightarrow> (\<exists>c. s = c # r \<and> p c)"
  by (cases s) auto

lemma dollar_rests_iff:
  "r \<in> set (item_rests Dollar s) \<longleftrightarrow> r = s \<and> (s = [] \<or> s = [CHR 0x0A])"
  by auto

lemma re_match_Cons_iff:
  "re_match (item # items) s \<longleftrightarrow> (\<exists>r. r \<in> set (item_rests item s) \<and> re_match items r)"
  by (auto simp: list_ex_iff)

lemma name_regex_match_iff:
  "re_match name_regex s \<longleftrightarrow>
     (\<exists>c mid d nl. s = c # mid @ d # nl \<and> is_alnum c \<and> (\<forall>x\<in>set mid. is_label_char x)
        \<and> is_alnum d \<and> (nl = [] \<or> nl = [CHR 0x0A]))"
proof -
  have "re_match name_regex s \<longleftrightarrow>
      (\<exists>r1 r2 r3. (\<exists>c. s = c # r1 \<and> is_alnum c)
         \<and> (\<exists>pre. r1 = pre @ r2 \<and> (\<forall>x\<in>set pre. is_label_char x))
         \<and> (\<exists>d. r2 = d # r3 \<and> is_alnum d) \<and> (r3 = [] \<or> r3 = [CHR 0x0A]))"
    unfolding name_regex_def re_match_Cons_iff one_rests_iff dollar_rests_iff
    by (simp add: many_rests_iff)
  also have "\<dots> \<longleftrightarrow> (\<exists>c mid d nl. s = c # mid @ d # nl \<and> is_alnum c
        \<and> (\<forall>x\<in>set mid. is_label_char x) \<and> is_alnum d \<and> (nl = [] \<or> nl = [CHR 0x0A]))"
    by blast
  finally show ?thesis .
qed

text \<open>
  A name of two good characters followed by a newline has length three and matches, by
  the rule for \<^verbatim>\<open>$\<close>; so the validation accepts it.
\<close>

lemma validate_name_trailing_newline: "validate_name (''ab'' @ [CHR 0x0A])"
  by (simp add: validate_name_def name_regex_def is_alnum_def is_label_char_def)

subsection \<open>Name validation comes before any remote call\<close>

text \<open>
  Claim C2. For every name shorter than 3 or longer than 48 characters, or not matching
  the pattern \<^verbatim>\<open>^[a-zA-Z0-9][A-Za-z0-9_-]*[a-zA-Z0-9]$\<close>, \<^verbatim>\<open>create\<close> returns \<^verbatim>\<open>False\<close> and
  leaves the world as it was: no request has been sent and no event fired. For every name
  that meets the three rules, \<^verbatim>\<open>_validate_name\<close> returns \<^verbatim>\<open>True\<close>. Matching is that of
  \<^verbatim>\<open>re.match\<close>, which \<open>name_regex_match_iff\<close> spells out.
\<close>

theorem create_refuses_invalid_name:
  "(length (vm_name vm) < 3 \<or> length (vm_name vm) > 48 \<or> \<not> re_match name_regex (vm_name vm)
      \<longrightarrow> create_v4 remote is_private poll_interval bootstrap vm w = Some (Inr (PBool False), w))
   \<and> (3 \<le> length name \<and> length name \<le> 48 \<and> re_match name_regex name \<longrightarrow> validate_name name)"
  by (auto simp: create_v4_def validate_name_def ret_def)

theorem create_refuses_invalid_name_witness:
  "create_v4 stub_provider stub_is_private 500 stub_bootstrap (vm_web01\<lparr>vm_name := ''-web''\<rparr>) world0
     = Some (Inr (PBool False), world0)
   \<and> validate_name ''web-01''"
  using create_refuses_invalid_name [of "vm_web01\<lparr>vm_name := ''-web''\<rparr>" stub_provider
      stub_is_private 500 stub_bootstrap world0 "''web-01''"]
  by (simp add: name_regex_def is_alnum_def is_label_char_def)

subsection \<open>Resolving an instance by id or by name\<close>

text \<open>
  Claim C10. \<^verbatim>\<open>get_linode\<close> resolves by id whenever a \<^verbatim>\<open>linode_id\<close> is supplied, whatever
  the name; by name when only a name is supplied; and with neither it raises an error
  whose message names both parameters, in the world it was called in: no request has
  been sent. This holds for the lookups of either API version.
\<close>

theorem get_linode_precedence:
  "(linode_id \<noteq> PNone \<longrightarrow> get_linode by_id by_name name linode_id w = by_id linode_id w)
   \<and> get_linode by_id by_name (Some n) PNone w = by_name n w
   \<and> get_linode by_id by_name None PNone w =
       Some (Inl (SaltCloudSystemExit
               ''The get_linode function requires either a 'name' or a 'linode_id'.''), w)"
  by (simp add: get_linode_def raise_def)

theorem get_linode_precedence_witness:
  "get_linode_v4 stub_provider (Some ''web-02'') (PInt 1) world0
     = get_linode_by_id_v4 stub_provider (PInt 1) world0
   \<and> get_linode_v4 stub_provider (Some ''web-01'') PNone world0
     = get_linode_by_name_v4 stub_provider ''web-01'' world0
   \<and> get_linode_v4 stub_provider None PNone world0 =
       Some (Inl (SaltCloudSystemExit
               ''The get_linode function requires either a 'name' or a 'linode_id'.''), world0)"
  using get_linode_precedence [of "PInt 1" "get_linode_by_id_v4 stub_provider"
      "get_linode_by_name_v4 stub_provider" "Some ''web-02''" world0 "''web-01''"]
  by (simp add: get_linode_v4_def)

subsection \<open>Running actions step by step\<close>

lemma then_e_Inr [simp]: "then_e (Inr x) f = f x" by (simp add: then_e_def)
lemma then_e_Inl [simp]: "then_e (Inl e) f = Inl e" by (simp add: then_e_def)

lemma bind_act_ret [simp]: "bind_act (ret x) f w = f x w"
  by (simp add: bind_act_def ret_def)
lemma bind_act_raise [simp]: "bind_act (raise e) f w = Some (Inl e, w)"
  by (simp add: bind_act_def raise_def)
lemma bind_act_lift_Inr [simp]: "bind_act (lift (Inr x)) f w = f x w"
  by (simp add: bind_act_def lift_def)
lemma bind_act_lift_Inl [simp]: "bind_act (lift (Inl e)) f w = Some (Inl e, w)"
  by (simp add: bind_act_def lift_def)
lemma bind_act_Some_Inr: "m w = Some (Inr x, w') \<Longrightarrow> bind_act m f w = f x w'"
  by (simp add: bind_act_def)
lemma bind_act_Some_Inl: "m w = Some (Inl e, w') \<Longrightarrow> bind_act m f w = Some (Inl e, w')"
  by (simp add: bind_act_def)
lemma bind_act_None: "m w = None \<Longrightarrow> bind_act m f w = None"
  by (simp add: bind_act_def)

lemma bind_act_Inr_elim:
  assumes "bind_act m f w = Some (Inr y, w')"
  obtains x wm where "m w = Some (Inr x, wm)" "f x wm = Some (Inr y, w')"
  using assms by (auto simp: bind_act_def split: option.splits sum.splits prod.splits)

subsection \<open>The APIv3 status vocabulary\<close>

text \<open>
  What the body of \<^verbatim>\<open>_get_status_descr_by_id\<close> computes from its parameter: for every
  integer code of \<^verbatim>\<open>LINODE_STATUS\<close> the description of that code; for every integer that
  is no code of the table \<^verbatim>\<open>None\<close>; and the exception of \<^verbatim>\<open>int\<close> exactly when
  \<^verbatim>\<open>int(status_id)\<close> raises.
\<close>

lemma status_descr_of_code:
  "((name, c, descr) \<in> set LINODE_STATUS \<longrightarrow> status_descr (PInt c) = Inr (PStr descr))
   \<and> (c \<notin> set (map (\<lambda>entry. fst (snd entry)) LINODE_STATUS)
        \<longrightarrow> status_descr (PInt c) = Inr PNone)
   \<and> (py_int v = Inl e \<longrightarrow> status_descr v = Inl e)
   \<and> (py_int v = Inr i \<longrightarrow> (\<exists>r. status_descr v = Inr r))"
  by (auto simp: status_descr_def LINODE_STATUS_def py_int_def)

lemma status_descr_None: "status_descr PNone = Inl TypeError"
  by (simp add: status_descr_def LINODE_STATUS_def py_int_def)

lemma status_descr_separator: "status_descr (PStr ''0_1'') = Inr (PStr ''Running'')"
  by (simp add: status_descr_def LINODE_STATUS_def py_int_def int_of_str_def is_space_def
      read_nat_def digit_val_def)

text \<open>
  Claim C6. The body is never reached. The driver calls the mapping as
  \<^verbatim>\<open>self._get_status_descr_by_id(status_id)\<close>; the function, declared without \<^verbatim>\<open>self\<close>,
  is handed two arguments where it takes one, and the call raises \<^verbatim>\<open>TypeError\<close>: for
  every instance and every status, a code of the table or not. The claim says the
  mapping returns the description for a code of the table and never raises. Handed the
  code 1 alone, the function gives \<^verbatim>\<open>Running\<close>.
\<close>

theorem status_descr_call_raises:
  "bound_call get_status_descr_by_id self [status_id] = Inl TypeError
   \<and> get_status_descr_by_id [PInt 1] = Inr (PStr ''Running'')"
  by (simp add: bound_call_def get_status_descr_by_id_def status_descr_def LINODE_STATUS_def
      py_int_def)

subsection \<open>What the APIv4 transport does with an error\<close>

text \<open>
  Claim C5, at two inputs. A response with status 401 and an error envelope comes back
  from \<^verbatim>\<open>LinodeAPIv4._query\<close> as an ordinary decoded value; and when \<^verbatim>\<open>requests\<close> raises
  \<^verbatim>\<open>HTTPError\<close>, the \<^verbatim>\<open>SaltCloudSystemExit\<close> object with the joined messages is returned,
  not raised. The claim says an error is raised to the caller in both cases.
\<close>

theorem query_v4_returns_api_error:
  "query_v4 unauthorized_provider ''/linode/instances'' ''GET'' PNone world0 =
     Some (Inr (PDict [(''errors'', PList [PDict [(''reason'', PStr ''Invalid Token'')]])]),
           world0\<lparr>calls := [request_v4 ''GET'' ''/linode/instances'' PNone]\<rparr>)
   \<and> query_v4 raising_provider ''/linode/instances'' ''GET'' PNone world0 =
     Some (Inr (PObj ''SaltCloudSystemExit''
                  [PStr ''Linode API reported error(s): '', PStr ''Invalid Token'']),
           world0\<lparr>calls := [request_v4 ''GET'' ''/linode/instances'' PNone]\<rparr>)"
  by (simp add: query_v4_def query_v4_result_def query_v4_return_def unauthorized_provider_def
      raising_provider_def world0_def py_contains_def py_item_def py_join_def py_iter_def)

text \<open>
  More generally the APIv4 transport never raises either API error: what it raises comes
  from the transport library or from decoding.
\<close>

lemma join_strs_raises: "join_strs sep xs = Inl e \<Longrightarrow> e = TypeError"
  by (induction sep xs rule: join_strs.induct) (auto simp: then_e_def split: sum.splits)

lemma query_v4_raises_no_api_error:
  assumes "query_v4 remote path method data w = Some (Inl e, w')"
  shows "e \<noteq> SaltCloudSystemExit msg \<and> e \<noteq> SaltCloudException msg"
  using assms
  by (auto simp: query_v4_def query_v4_result_def query_v4_return_def Let_def then_e_def
      py_contains_def py_item_def py_join_def py_iter_def
      dest!: join_strs_raises
      split: http_outcome.splits option.splits sum.splits if_splits pyval.splits prod.splits)

text \<open>
  The APIv3 transport does raise: a non-empty \<^verbatim>\<open>ERRORARRAY\<close> of messages gives
  \<^verbatim>\<open>SaltCloudException\<close> with the messages joined, or \<^verbatim>\<open>SaltCloudSystemExit\<close> when one of
  them is \<^verbatim>\<open>Authentication failed\<close>.
\<close>

lemma error_loop_messages:
  "error_loop (map (\<lambda>m. PDict [(''ERRORMESSAGE'', PStr m)]) msgs) error_list =
     (if ''Authentication failed'' \<in> set msgs
      then Inl (SaltCloudSystemExit ''Linode API Key is expired or invalid'')
      else Inr (error_list @ map PStr msgs))"
  by (induction msgs arbitrary: error_list) (auto simp: py_item_def)

lemma join_strs_of_strings: "\<exists>joined. join_strs sep (map PStr msgs) = Inr joined"
proof (induction msgs)
  case Nil
  show ?case by simp
next
  case (Cons m ms)
  then show ?case by (cases ms) auto
qed

lemma query_v3_raises_api_error:
  assumes "msgs \<noteq> []"
    and "py_item d ''ERRORARRAY'' = Inr (PList (map (\<lambda>m. PDict [(''ERRORMESSAGE'', PStr m)]) msgs))"
    and "remote (calls w) (request_v3 apikey action command args)
           = Inr (PDict [(''dict'', d), (''status'', st)])"
  shows "\<exists>joined. join_strs '', '' (map PStr msgs) = Inr joined
     \<and> query_v3 remote apikey action command args w =
         Some (Inl (if ''Authentication failed'' \<in> set msgs
                    then SaltCloudSystemExit ''Linode API Key is expired or invalid''
                    else SaltCloudException (''Linode API reported error(s): '' @ joined)),
               w\<lparr>calls := calls w @ [request_v3 apikey action command args]\<rparr>)"
proof -
  obtain joined where j: "join_strs '', '' (map PStr msgs) = Inr joined"
    using join_strs_of_strings by blast
  obtain kvs where d: "d = PDict kvs" using assms(2) by (cases d) (auto simp: py_item_def)
  have has: "py_contains d ''ERRORARRAY'' = Inr True"
    using assms(2) unfolding d
    by (force simp: py_contains_def py_item_def split: option.splits dest: map_of_SomeD)
  have "query_v3_check (PDict [(''dict'', d), (''status'', st)]) =
      Inl (if ''Authentication failed'' \<in> set msgs
           then SaltCloudSystemExit ''Linode API Key is expired or invalid''
           else SaltCloudException (''Linode API reported error(s): '' @ joined))"
    using assms(1)
    by (simp add: query_v3_check_def py_item_def [of "PDict [(''dict'', d), (''status'', st)]"]
        has assms(2) py_truthy_def py_iter_def error_loop_messages j)
  then show ?thesis using j assms(3) by (simp add: query_v3_def)
qed

subsection \<open>Starting a running instance, stopping a stopped one\<close>

lemma query_v4_world:
  "query_v4 remote path method data w = Some (r, w') \<Longrightarrow>
     w' = w\<lparr>calls := calls w @ [request_v4 method path data]\<rparr>"
  by (auto simp: query_v4_def Let_def)

lemma get_linode_by_name_v4_world:
  assumes "get_linode_by_name_v4 remote name w = Some (r, w')"
  shows "w' = w\<lparr>calls := calls w @ [request_v4 ''GET'' ''/linode/instances'' PNone]\<rparr>"
  using assms
  by (auto simp: get_linode_by_name_v4_def bind_act_def lift_def query_v4_def Let_def
      split: option.splits sum.splits prod.splits)

text \<open>
  Claim C7, as amended. When the lookup by name finds an instance whose status is
  \<^verbatim>\<open>running\<close>, \<^verbatim>\<open>start\<close> returns its success result in the world the lookup left; likewise
  \<^verbatim>\<open>stop\<close> for the status \<^verbatim>\<open>offline\<close>. That world differs from the one before by a single
  request, the read \<^verbatim>\<open>GET /linode/instances\<close> of the lookup: no state-changing request is
  made and no event is fired.
\<close>

theorem start_stop_short_circuit:
  assumes "get_linode_by_name_v4 remote name w = Some (Inr instance, w')"
  shows "(py_item instance ''status'' = Inr (PStr ''running'') \<longrightarrow>
            start_v4 remote poll_interval name w =
              Some (Inr (PDict [(''success'', PBool True), (''action'', PStr ''start''),
                                (''state'', PStr ''Running''),
                                (''msg'', PStr ''Machine already running'')]), w'))
       \<and> (py_item instance ''status'' = Inr (PStr ''offline'') \<longrightarrow>
            stop_v4 remote poll_interval name w =
              Some (Inr (PDict [(''success'', PBool True), (''action'', PStr ''stop''),
                                (''state'', PStr ''Stopped''),
                                (''msg'', PStr ''Machine already stopped'')]), w'))
       \<and> calls w' = calls w @ [request_v4 ''GET'' ''/linode/instances'' PNone]
       \<and> events w' = events w"
proof -
  have w': "w' = w\<lparr>calls := calls w @ [request_v4 ''GET'' ''/linode/instances'' PNone]\<rparr>"
    using assms by (rule get_linode_by_name_v4_world)
  have found: "bind_act (get_linode_by_name_v4 remote name) f w = f instance w'"
    for f :: "pyval \<Rightarrow> pyval act"
    by (simp add: bind_act_def assms)
  have get_id: "py_item inst ''status'' = Inr s \<Longrightarrow>
      \<exists>i. py_get inst ''id'' PNone = Inr i" for s inst
    by (cases inst) (auto simp: py_item_def py_get_def)
  have start: "start_v4 remote poll_interval name w =
      Some (Inr (PDict [(''success'', PBool True), (''action'', PStr ''start''),
                        (''state'', PStr ''Running''),
                        (''msg'', PStr ''Machine already running'')]), w')"
    if running: "py_item instance ''status'' = Inr (PStr ''running'')"
  proof -
    obtain i where "py_get instance ''id'' PNone = Inr i" using get_id [OF running] by blast
    then show ?thesis using running
      by (simp add: start_v4_def found ret_def)
  qed
  have stop: "stop_v4 remote poll_interval name w =
      Some (Inr (PDict [(''success'', PBool True), (''action'', PStr ''stop''),
                        (''state'', PStr ''Stopped''),
                        (''msg'', PStr ''Machine already stopped'')]), w')"
    if offline: "py_item instance ''status'' = Inr (PStr ''offline'')"
  proof -
    obtain i where "py_get instance ''id'' PNone = Inr i" using get_id [OF offline] by blast
    then show ?thesis using offline
      by (simp add: stop_v4_def found ret_def)
  qed
  show ?thesis using start stop w' by simp
qed

lemma stub_lookup_web01:
  "get_linode_by_name_v4 stub_provider ''web-01'' world0 =
     Some (Inr instance_web01, world0\<lparr>calls := [request_v4 ''GET'' ''/linode/instances'' PNone]\<rparr>)"
  by (simp add: get_linode_by_name_v4_def bind_act_def lift_def query_v4_def query_v4_result_def
      query_v4_return_def request_v4_def stub_provider_def world0_def py_get_def py_iter_def
      py_item_def instance_web01_def)

lemma stub_lookup_db01:
  "get_linode_by_name_v4 stub_provider ''db-01'' world0 =
     Some (Inr instance_db01, world0\<lparr>calls := [request_v4 ''GET'' ''/linode/instances'' PNone]\<rparr>)"
  by (simp add: get_linode_by_name_v4_def bind_act_def lift_def query_v4_def query_v4_result_def
      query_v4_return_def request_v4_def stub_provider_def world0_def py_get_def py_iter_def
      py_item_def instance_web01_def instance_db01_def)

theorem start_stop_short_circuit_witness:
  "start_v4 stub_provider 500 ''web-01'' world0 =
     Some (Inr (PDict [(''success'', PBool True), (''action'', PStr ''start''),
                       (''state'', PStr ''Running''),
                       (''msg'', PStr ''Machine already running'')]),
           world0\<lparr>calls := [request_v4 ''GET'' ''/linode/instances'' PNone]\<rparr>)
   \<and> stop_v4 stub_provider 500 ''db-01'' world0 =
     Some (Inr (PDict [(''success'', PBool True), (''action'', PStr ''stop''),
                       (''state'', PStr ''Stopped''),
                       (''msg'', PStr ''Machine already stopped'')]),
           world0\<lparr>calls := [request_v4 ''GET'' ''/linode/instances'' PNone]\<rparr>)"
  using start_stop_short_circuit [OF stub_lookup_web01, of 500]
        start_stop_short_circuit [OF stub_lookup_db01, of 500]
  by (simp add: instance_web01_def instance_db01_def py_item_def)

text \<open>
  The claim as stated says \<^verbatim>\<open>start\<close> succeeds without invoking the transport. On the
  stub account it succeeds in a world that is not the one it started in: the lookup has
  sent one request.
\<close>

lemma start_v4_stub_eval:
  "start_v4 stub_provider 500 ''web-01'' world0 =
     Some (Inr (PDict [(''success'', PBool True), (''action'', PStr ''start''),
                       (''state'', PStr ''Running''),
                       (''msg'', PStr ''Machine already running'')]),
           world0\<lparr>calls := [request_v4 ''GET'' ''/linode/instances'' PNone]\<rparr>)"
proof -
  have "bind_act (get_linode_by_name_v4 stub_provider ''web-01'') f world0
      = f instance_web01 (world0\<lparr>calls := [request_v4 ''GET'' ''/linode/instances'' PNone]\<rparr>)" for f :: "pyval \<Rightarrow> pyval act"
    by (simp add: bind_act_def stub_lookup_web01)
  then show ?thesis
    by (simp add: start_v4_def instance_web01_def py_get_def py_item_def ret_def)
qed

theorem start_invokes_transport_counterexample:
  "start_v4 stub_provider 500 ''web-01'' world0 \<noteq>
     Some (Inr (PDict [(''success'', PBool True), (''action'', PStr ''start''),
                       (''state'', PStr ''Running''),
                       (''msg'', PStr ''Machine already running'')]), world0)
   \<and> map req_path (calls (snd (the (start_v4 stub_provider 500 ''web-01'' world0))))
       = [''/linode/instances'']"
  using start_v4_stub_eval by (simp add: world0_def request_v4_def)

subsection \<open>Public and private addresses\<close>

lemma ips_loop_filter:
  "\<forall>a\<in>set addrs. is_private a \<noteq> None \<Longrightarrow>
     ips_loop is_private addrs public_ips private_ips =
       Inr (public_ips @ filter (\<lambda>a. is_private a = Some False) addrs,
            private_ips @ filter (\<lambda>a. is_private a = Some True) addrs)"
  by (induction addrs arbitrary: public_ips private_ips) (auto split: option.splits)

lemma ips_loop_invalid:
  "\<exists>a\<in>set addrs. is_private a = None \<Longrightarrow>
     ips_loop is_private addrs public_ips private_ips = Inl ValueError"
  by (induction addrs arbitrary: public_ips private_ips) (auto split: option.splits)

lemma ips_of_step:
  "ips_of (AList.map_entry k f (if map_of res k = None then res @ [(k, [], [])] else res)) node
     = (if node = k then f (ips_of res k) else ips_of res node)"
  by (auto simp: ips_of_def map_of_map_entry split: option.splits)

lemma ip_list_loop_ips_of:
  "\<forall>item\<in>set items. ip_record_ok item \<Longrightarrow>
     \<exists>res'. ip_list_loop items res = Inr res'
       \<and> (\<forall>node. ips_of res' node =
             (fst (ips_of res node) @ public_of node items,
              snd (ips_of res node) @ private_of node items))"
proof (induction items arbitrary: res)
  case Nil
  then show ?case by (simp add: public_of_def private_of_def)
next
  case (Cons item rest)
  from Cons.prems obtain l p a where fields:
    "py_item item ''LINODEID'' = Inr l" "py_item item ''ISPUBLIC'' = Inr p"
    "py_item item ''IPADDRESS'' = Inr a"
    by (auto simp: ip_record_ok_def split: sum.splits)
  define f where "f = (\<lambda>(public_ips :: pyval list, private_ips :: pyval list).
      if py_eq p (PInt 1) then (public_ips @ [a], private_ips) else (public_ips, private_ips @ [a]))"
  define res2 where "res2 = AList.map_entry (py_str l) f
      (if map_of res (py_str l) = None then res @ [(py_str l, [], [])] else res)"
  have step: "ip_list_loop (item # rest) res = ip_list_loop rest res2"
    using fields by (simp add: Let_def res2_def f_def)
  have res2: "ips_of res2 node = (if node = py_str l then f (ips_of res (py_str l)) else ips_of res node)"
    for node unfolding res2_def by (rule ips_of_step)
  from Cons.prems have "\<forall>item\<in>set rest. ip_record_ok item" by simp
  from Cons.IH [OF this, of res2] obtain res' where res':
    "ip_list_loop rest res2 = Inr res'"
    "\<And>node. ips_of res' node =
       (fst (ips_of res2 node) @ public_of node rest, snd (ips_of res2 node) @ private_of node rest)"
    by blast
  have "ips_of res' node =
      (fst (ips_of res node) @ public_of node (item # rest),
       snd (ips_of res node) @ private_of node (item # rest))" for node
    using fields
    by (cases "ips_of res (py_str l)")
       (auto simp: res'(2) res2 f_def public_of_def private_of_def ip_node_def
          ip_flagged_public_def ip_address_def)
  then show ?case using step res'(1) by simp
qed

text \<open>
  Claim C8, as amended. APIv4 puts an address of the instance's \<^verbatim>\<open>ipv4\<close> list into the
  private list exactly when the library's \<^verbatim>\<open>is_private\<close> holds for it, and into the public
  list otherwise; APIv3 puts the address of a record into the public list exactly when
  the provider flags the record \<^verbatim>\<open>ISPUBLIC == 1\<close>, and into the private list otherwise.
  Neither compares an address with the three private ranges. In both versions the two
  lists keep the order of the raw list and together hold every raw address of the
  instance exactly once; in APIv4 no address is in both.
\<close>

theorem address_lists_partition:
  "(get_linode_by_id_v4 remote linode_id w = Some (Inr inst, w')
      \<and> py_get inst ''ipv4'' (PList []) = Inr (PList addrs)
      \<and> (\<forall>a\<in>set addrs. is_private a \<noteq> None)
    \<longrightarrow> (\<exists>public_ips private_ips.
           get_ips_v4 remote is_private linode_id w = Some (Inr (public_ips, private_ips), w')
         \<and> private_ips = filter (\<lambda>a. is_private a = Some True) addrs
         \<and> public_ips = filter (\<lambda>a. is_private a = Some False) addrs
         \<and> mset public_ips + mset private_ips = mset addrs
         \<and> set public_ips \<inter> set private_ips = {}))
   \<and> (py_truthy node_id
      \<and> query_v3 remote_v apikey ''linode'' ''ip.list'' (PDict [(''LinodeID'', node_id)]) wv
           = Some (Inr ips, wv')
      \<and> py_item ips ''DATA'' = Inr (PList items)
      \<and> (\<forall>item\<in>set items. ip_record_ok item)
    \<longrightarrow> get_ips_v3 remote_v apikey node_id wv
          = Some (Inr (ips_dict (public_of (py_str node_id) items,
                                 private_of (py_str node_id) items)), wv')
        \<and> mset (public_of (py_str node_id) items) + mset (private_of (py_str node_id) items)
            = mset (map ip_address (filter (\<lambda>item. ip_node item = py_str node_id) items)))"
proof (intro conjI impI)
  assume a: "get_linode_by_id_v4 remote linode_id w = Some (Inr inst, w')
      \<and> py_get inst ''ipv4'' (PList []) = Inr (PList addrs)
      \<and> (\<forall>a\<in>set addrs. is_private a \<noteq> None)"
  then have valid: "\<forall>a\<in>set addrs. is_private a \<noteq> None" by simp
  have run: "get_ips_v4 remote is_private linode_id w =
      Some (Inr (filter (\<lambda>a. is_private a = Some False) addrs,
                 filter (\<lambda>a. is_private a = Some True) addrs), w')"
    using a by (simp add: get_ips_v4_def bind_act_def lift_def py_iter_def ips_loop_filter [OF valid])
  have part: "mset (filter (\<lambda>a. is_private a = Some False) addrs)
      + mset (filter (\<lambda>a. is_private a = Some True) addrs) = mset addrs"
    using valid by (induction addrs) auto
  have disj: "set (filter (\<lambda>a. is_private a = Some False) addrs)
      \<inter> set (filter (\<lambda>a. is_private a = Some True) addrs) = {}"
    by auto
  show "\<exists>public_ips private_ips.
           get_ips_v4 remote is_private linode_id w = Some (Inr (public_ips, private_ips), w')
         \<and> private_ips = filter (\<lambda>a. is_private a = Some True) addrs
         \<and> public_ips = filter (\<lambda>a. is_private a = Some False) addrs
         \<and> mset public_ips + mset private_ips = mset addrs
         \<and> set public_ips \<inter> set private_ips = {}"
    using run part disj by blast
next
  assume a: "py_truthy node_id
      \<and> query_v3 remote_v apikey ''linode'' ''ip.list'' (PDict [(''LinodeID'', node_id)]) wv
           = Some (Inr ips, wv')
      \<and> py_item ips ''DATA'' = Inr (PList items)
      \<and> (\<forall>item\<in>set items. ip_record_ok item)"
  then have ok: "\<forall>item\<in>set items. ip_record_ok item" by simp
  from ip_list_loop_ips_of [OF ok, of "[]"] obtain res' where res':
    "ip_list_loop items [] = Inr res'"
    "\<And>node. ips_of res' node = (public_of node items, private_of node items)"
    by (auto simp: ips_of_def)
  have "(case map_of res' (py_str node_id) of
           Some matching_id \<Rightarrow> Inr (ips_dict matching_id)
         | None \<Rightarrow> Inr (ips_dict ([], []))) =
        (Inr (ips_dict (ips_of res' (py_str node_id))) :: exn + pyval)"
    by (simp add: ips_of_def split: option.splits)
  then show "get_ips_v3 remote_v apikey node_id wv
          = Some (Inr (ips_dict (public_of (py_str node_id) items,
                                 private_of (py_str node_id) items)), wv')"
    using a res' by (simp add: get_ips_v3_def bind_act_def lift_def py_iter_def)
next
  show "mset (public_of (py_str node_id) items) + mset (private_of (py_str node_id) items)
            = mset (map ip_address (filter (\<lambda>item. ip_node item = py_str node_id) items))"
    by (induction items) (auto simp: public_of_def private_of_def)
qed

lemma stub_ip_list:
  "query_v3 stub_provider3 (PStr ''KEY'') ''linode'' ''ip.list'' (PDict [(''LinodeID'', PInt 7)]) world0
     = Some (Inr (PDict [(''ERRORARRAY'', PList []),
                       (''DATA'', PList
                          [PDict [(''LINODEID'', PInt 7), (''ISPUBLIC'', PInt 1),
                                  (''IPADDRESS'', PStr ''10.0.0.5'')],
                           PDict [(''LINODEID'', PInt 7), (''ISPUBLIC'', PInt 0),
                                  (''IPADDRESS'', PStr ''45.33.1.2'')]])]),
             world0\<lparr>calls := [\<lparr>req_method = ''GET'', req_path = ''https://api.linode.com/'',
                 req_params = PDict [(''LinodeID'', PInt 7), (''api_key'', PStr ''KEY''),
                                     (''api_action'', PStr ''linode.ip.list'')],
                 req_data = PNone\<rparr>]\<rparr>)"
  by (simp add: query_v3_def request_v3_def query_v3_args_def query_v3_check_def
      stub_provider3_def world0_def py_item_def py_contains_def py_truthy_def)

lemma stub_lookup_by_id:
  "get_linode_by_id_v4 stub_provider (PInt 1) world0 =
     Some (Inr instance_web01, world0\<lparr>calls := [request_v4 ''GET'' ''/linode/instances/1'' PNone]\<rparr>)"
  by (simp add: get_linode_by_id_v4_def query_v4_def query_v4_result_def query_v4_return_def
      request_v4_def stub_provider_def world0_def str_int_def digits.simps digit_char_def)

theorem address_lists_partition_witness:
  "get_ips_v4 stub_provider stub_is_private (PInt 1) world0
     = Some (Inr ([PStr ''45.33.1.2''], [PStr ''192.168.1.5'']),
             world0\<lparr>calls := [request_v4 ''GET'' ''/linode/instances/1'' PNone]\<rparr>)
   \<and> map_option fst (get_ips_v3 stub_provider3 (PStr ''KEY'') (PInt 7) world0)
     = Some (Inr (ips_dict ([PStr ''10.0.0.5''], [PStr ''45.33.1.2''])))"
proof -
  let ?addrs = "[PStr ''45.33.1.2'', PStr ''192.168.1.5'']"
  let ?items = "[PDict [(''LINODEID'', PInt 7), (''ISPUBLIC'', PInt 1),
                        (''IPADDRESS'', PStr ''10.0.0.5'')],
                 PDict [(''LINODEID'', PInt 7), (''ISPUBLIC'', PInt 0),
                        (''IPADDRESS'', PStr ''45.33.1.2'')]]"
  have h2: "py_get instance_web01 ''ipv4'' (PList []) = Inr (PList ?addrs)"
    by (simp add: instance_web01_def py_get_def)
  have h3: "\<forall>a\<in>set ?addrs. stub_is_private a \<noteq> None"
    by (auto simp: stub_is_private_def)
  have h4: "py_truthy (PInt 7)" by (simp add: py_truthy_def)
  have h5: "py_item (PDict [(''ERRORARRAY'', PList []), (''DATA'', PList ?items)]) ''DATA''
      = Inr (PList ?items)"
    by (simp add: py_item_def)
  have h6: "\<forall>item\<in>set ?items. ip_record_ok item"
    by (simp add: ip_record_ok_def py_item_def)
  have f1: "filter (\<lambda>a. stub_is_private a = Some False) ?addrs = [PStr ''45.33.1.2'']"
    and f2: "filter (\<lambda>a. stub_is_private a = Some True) ?addrs = [PStr ''192.168.1.5'']"
    by (simp_all add: stub_is_private_def)
  have f3: "public_of (py_str (PInt 7)) ?items = [PStr ''10.0.0.5'']"
    and f4: "private_of (py_str (PInt 7)) ?items = [PStr ''45.33.1.2'']"
    by (simp_all add: public_of_def private_of_def ip_node_def ip_flagged_public_def
        ip_address_def py_item_def py_eq_def py_num_def)
  from address_lists_partition [where remote = stub_provider and linode_id = "PInt 1"
      and w = world0 and inst = instance_web01
      and w' = "world0\<lparr>calls := [request_v4 ''GET'' ''/linode/instances/1'' PNone]\<rparr>"
      and addrs = ?addrs and is_private = stub_is_private
      and node_id = "PInt 7" and remote_v = stub_provider3 and apikey = "PStr ''KEY''"
      and wv = world0 and items = ?items]
    stub_lookup_by_id stub_ip_list h2 h3 h4 h5 h6
  show ?thesis
    unfolding f1 f2 f3 f4 by auto
qed

text \<open>
  The claim as stated says an address in \<^verbatim>\<open>10.0.0.0/8\<close> is classified private and any
  other public. For an APIv3 listing that flags \<^verbatim>\<open>10.0.0.5\<close> public and \<^verbatim>\<open>45.33.1.2\<close> not,
  the lists come out the other way round.
\<close>

theorem private_range_flagged_public_counterexample:
  "map_option fst (get_ips_v3 stub_provider3 (PStr ''KEY'') (PInt 7) world0)
     = Some (Inr (PDict [(''public_ips'', PList [PStr ''10.0.0.5'']),
                         (''private_ips'', PList [PStr ''45.33.1.2''])]))"
  by (simp add: get_ips_v3_def bind_act_def lift_def stub_ip_list py_truthy_def py_item_def
      py_iter_def py_eq_def py_num_def Let_def ips_dict_def str_int_def digits.simps
      digit_char_def)

subsection \<open>The address handed to the bootstrap\<close>

lemma stub_get_by_id:
  "get_linode_by_id_v4 stub_provider (PInt 1) w =
     Some (Inr instance_web01,
           w\<lparr>calls := calls w @ [request_v4 ''GET'' ''/linode/instances/1'' PNone]\<rparr>)"
  by (simp add: get_linode_by_id_v4_def query_v4_def query_v4_result_def query_v4_return_def
      request_v4_def stub_provider_def str_int_def digits.simps digit_char_def)

text \<open>
  \<^verbatim>\<open>boot\<close> never returns a value: where it does not raise earlier, the call of line 426
  raises \<^verbatim>\<open>TypeError\<close>. So the APIv4 \<^verbatim>\<open>create\<close> never reaches the choice of the SSH
  target (lines 620--623): the one value it returns is the \<^verbatim>\<open>False\<close> for a name it
  refuses.
\<close>

lemma boot_v4_never_returns:
  "boot_v4 remote poll_interval name kw_linode_id config_id check_running w \<noteq> Some (Inr b, w')"
proof
  assume "boot_v4 remote poll_interval name kw_linode_id config_id check_running w = Some (Inr b, w')"
  then show False
    unfolding boot_v4_def
    by (auto simp: raise_def elim!: bind_act_Inr_elim)
qed

lemma create_v4_returns_only_False:
  assumes "create_v4 remote is_private poll_interval bootstrap vm w = Some (Inr r, w')"
  shows "\<not> validate_name (vm_name vm) \<and> r = PBool False \<and> w' = w"
proof (cases "validate_name (vm_name vm)")
  case False
  with assms show ?thesis by (simp add: create_v4_def ret_def)
next
  case True
  with assms have False
    unfolding create_v4_def
    by (auto simp: boot_v4_never_returns elim!: bind_act_Inr_elim)
  then show ?thesis ..
qed

text \<open>
  The choice itself asks whether \<^verbatim>\<open>ssh_interface\<close> is the object of the constant
  \<^verbatim>\<open>"private_ips"\<close>. A value read from a profile is not, whatever its characters, and
  neither is the default: for both the target would be the first public address. The
  APIv3 \<^verbatim>\<open>create\<close> compares the characters.
\<close>

lemma use_private_ip_iff: "use_private_ip vm \<longleftrightarrow> vm_ssh_interface vm = Const ''private_ips''"
  by (simp add: use_private_ip_def py_is_const_def)

lemma ssh_host_v4_loaded:
  "vm_ssh_interface vm = Loaded s
     \<Longrightarrow> ssh_host_v4 vm public_ips private_ips = py_first (PList public_ips)"
  by (simp add: ssh_host_v4_def use_private_ip_iff)

lemma ssh_host_v3_by_value:
  "ssh_host_v3 ssh_interface (ips_dict (public_ips, private_ips)) =
     py_first (PList (if str_value ssh_interface = ''private_ips'' then private_ips
                      else public_ips))"
  by (simp add: ssh_host_v3_def ips_dict_def py_item_def)

text \<open>
  Claim C9, at a profile that asks for the private interface: \<^verbatim>\<open>web-01\<close> with
  \<^verbatim>\<open>ssh_interface: private_ips\<close> read from the profile and no disk size, on the stub
  account, whose instance has the public address 45.33.1.2 and the private address
  192.168.1.5. \<^verbatim>\<open>create\<close> fires the \<^verbatim>\<open>creating\<close> event, creates the instance, looks it up
  for \<^verbatim>\<open>boot\<close> and ends with the \<^verbatim>\<open>TypeError\<close> of line 426: no SSH target is chosen and
  no \<^verbatim>\<open>waiting_for_ssh\<close> event fired. The identity test of line 522 is false for this
  profile, so that lines 620--623 would pick the public address. The claim says the
  target is the first private address.
\<close>

theorem create_private_interface_no_ssh_host:
  "create_v4 stub_provider stub_is_private 500 stub_bootstrap
       (vm_web01\<lparr>vm_ssh_interface := Loaded ''private_ips'', vm_disk_size := None\<rparr>) world0
     = Some (Inl TypeError,
             world0\<lparr>calls :=
                 [request_v4 ''POST'' ''/linode/instances''
                    (create_params (vm_web01\<lparr>vm_ssh_interface := Loaded ''private_ips'',
                                             vm_disk_size := None\<rparr>)),
                  request_v4 ''GET'' ''/linode/instances/1'' PNone],
               events := [(''salt/cloud/web-01/creating'', PDict [(''name'', PStr ''web-01'')])]\<rparr>)
   \<and> \<not> use_private_ip (vm_web01\<lparr>vm_ssh_interface := Loaded ''private_ips'',
                                   vm_disk_size := None\<rparr>)
   \<and> ssh_host_v4 (vm_web01\<lparr>vm_ssh_interface := Loaded ''private_ips'', vm_disk_size := None\<rparr>)
         [PStr ''45.33.1.2''] [PStr ''192.168.1.5'']
       = Inr (PStr ''45.33.1.2'')"
  by code_simp

subsection \<open>Explicit provisioning: disks and configuration profile\<close>

text \<open>
  Claim C3, at the explicit-disk scenario of the specification: the profile \<^verbatim>\<open>web-01\<close> with
  a root disk of 20000 MB and 256 MB of swap, on a size class of 25600 MB whose disks
  are ready at once. \<^verbatim>\<open>create\<close> creates the instance, reads the size class, creates the
  swap disk and then the root disk, and ends with the \<^verbatim>\<open>SaltCloudSystemExit\<close> of
  \<^verbatim>\<open>create_config\<close>: no request for a configuration profile is among the six requests it
  has sent. The claim says one profile referring to both disks is created.
\<close>

theorem create_explicit_disks_no_config:
  "map_option (\<lambda>rw. (fst rw, map (\<lambda>q. (req_method q, req_path q)) (calls (snd rw))))
     (create_v4 stub_provider stub_is_private 500 stub_bootstrap vm_web01 world0)
   = Some (Inl (SaltCloudSystemExit
                 (''The create_config functions requires a 'name', 'linode_id', ''
                    @ [CHR 0x27] @ ''root_disk_id', and 'swap_disk_id'.'')),
           [(''POST'', ''/linode/instances''),
            (''GET'', ''/linode/types/g6-standard-1''),
            (''POST'', ''/linode/instance/1/disks''),
            (''GET'', ''/linode/instance/1/disk/2''),
            (''POST'', ''/linode/instance/1/disks''),
            (''GET'', ''/linode/instance/1/disk/4'')])"
  by code_simp

text \<open>
  The reason does not depend on the input: \<^verbatim>\<open>create\<close> never passes a \<^verbatim>\<open>root_disk_id\<close>, and
  without one \<^verbatim>\<open>create_config\<close> raises before it sends anything; so the explicit branch
  of \<^verbatim>\<open>create\<close> never returns normally, for any provider and profile.
\<close>

lemma create_config_v4_without_root:
  "\<exists>msg. create_config_v4 remote name linode_id PNone swap_disk_id data_disk_id w
     = Some (Inl (SaltCloudSystemExit msg), w)"
  by (simp add: create_config_v4_def raise_def)

lemma create_config_v4_needs_root:
  "create_config_v4 remote name linode_id PNone swap_disk_id data_disk_id w \<noteq> Some (Inr x, w')"
  using create_config_v4_without_root [of remote name linode_id swap_disk_id data_disk_id w]
  by auto

lemma create_disks_never_returns:
  "create_disks remote poll_interval vm root_size linode_id w \<noteq> Some (Inr u, w')"
proof
  assume a: "create_disks remote poll_interval vm root_size linode_id w = Some (Inr u, w')"
  then show False
    unfolding create_disks_def
    by (auto simp: Let_def raise_def create_config_v4_needs_root
        elim!: bind_act_Inr_elim split: if_splits)
qed

subsection \<open>Explicit provisioning: the capacity checks\<close>

text \<open>
  Claim C4, as amended. On the explicit branch of the APIv4 \<^verbatim>\<open>create\<close>, with the instance
  created and the size class read: when the root size (the one given, or the capacity
  less the swap size when 0 is given) plus the swap size exceeds the capacity of the size
  class, \<^verbatim>\<open>create\<close> raises \<^verbatim>\<open>SaltCloudException\<close> with a message naming the size class and
  its capacity; when it does not but the root size is not positive, \<^verbatim>\<open>create\<close> raises
  \<^verbatim>\<open>SaltCloudException\<close> with the message \<^verbatim>\<open>Disk must be allocated for the root disk
  partition\<close>, which names neither. In both cases the requests sent are the creation of
  the instance and the read of the size class, and no disk has been requested.
\<close>

theorem create_capacity_errors:
  assumes valid: "validate_name (vm_name vm)"
    and fresh: "\<not> should_clone vm"
    and explicit: "vm_disk_size vm = Some root_size"
    and created: "remote (calls w) (request_v4 ''POST'' ''/linode/instances'' (create_params vm))
        = Response code_a (Some (PDict inst))"
    and spec_resp: "remote (calls w @ [request_v4 ''POST'' ''/linode/instances'' (create_params vm)])
          (request_v4 ''GET'' (''/linode/types/'' @ py_str (vm_size vm)) PNone)
        = Response code_b (Some (PDict spec))"
    and disk: "disk_v = (case map_of spec ''disk'' of Some v \<Rightarrow> v | None \<Rightarrow> PInt 0)"
      "py_num disk_v = Inr disk_size"
    and resolved: "root_disk_size = (if root_size = 0 then disk_size - vm_swap vm else root_size)"
    and final: "w_end = w\<lparr>calls := calls w @
          [request_v4 ''POST'' ''/linode/instances'' (create_params vm),
           request_v4 ''GET'' (''/linode/types/'' @ py_str (vm_size vm)) PNone],
        events := events w @
          [(event_tag (vm_name vm) ''creating'', PDict [(''name'', PStr (vm_name vm))])]\<rparr>"
  shows "(root_disk_size + vm_swap vm > disk_size \<longrightarrow>
            create_v4 remote is_private poll_interval bootstrap vm w =
              Some (Inl (SaltCloudException
                (''Insufficient space available for type '' @ [CHR 0x27] @ py_str (vm_size vm)
                   @ [CHR 0x27] @ '' ('' @ py_str disk_v @ '')'')), w_end))
       \<and> (root_disk_size + vm_swap vm \<le> disk_size \<and> root_disk_size \<le> 0 \<longrightarrow>
            create_v4 remote is_private poll_interval bootstrap vm w =
              Some (Inl (SaltCloudException
                ''Disk must be allocated for the root disk partition''), w_end))"
proof -
  define w1 where "w1 = w\<lparr>events := events w @
      [(event_tag (vm_name vm) ''creating'', PDict [(''name'', PStr (vm_name vm))])]\<rparr>"
  define w2 where
    "w2 = w1\<lparr>calls := calls w @ [request_v4 ''POST'' ''/linode/instances'' (create_params vm)]\<rparr>"
  define lid where "lid = (case map_of inst ''id'' of None \<Rightarrow> PNone | Some v \<Rightarrow> v)"
  have ev: "fire_event (event_tag (vm_name vm) ''creating'')
      (PDict [(''name'', PStr (vm_name vm))]) w = Some (Inr (), w1)"
    by (simp add: fire_event_def w1_def)
  have prov: "create_provision remote vm w1 = Some (Inr (PDict inst), w2)"
    using fresh created
    by (simp add: create_provision_def query_v4_def query_v4_result_def query_v4_return_def
        w1_def w2_def)
  have tp: "get_linode_type remote (vm_size vm) w2 = Some (Inr (PDict spec), w_end)"
    using spec_resp
    by (simp add: get_linode_type_def query_v4_def query_v4_result_def query_v4_return_def final
        w1_def w2_def)
  have get_disk: "py_get (PDict spec) ''disk'' (PInt 0) = Inr disk_v"
    by (simp add: py_get_def disk(1))
  have get_id: "py_get (PDict inst) ''id'' PNone = Inr lid"
    by (simp add: py_get_def lid_def)
  have over: "create_disks remote poll_interval vm root_size lid w2 =
         Some (Inl (SaltCloudException
                (''Insufficient space available for type '' @ [CHR 0x27] @ py_str (vm_size vm)
                   @ [CHR 0x27] @ '' ('' @ py_str disk_v @ '')'')), w_end)"
    if "root_disk_size + vm_swap vm > disk_size"
    using that
    by (simp add: create_disks_def bind_act_def tp lift_def get_disk disk(2) Let_def resolved
        raise_def)
  have nonpos: "create_disks remote poll_interval vm root_size lid w2 =
         Some (Inl (SaltCloudException ''Disk must be allocated for the root disk partition''), w_end)"
    if "root_disk_size + vm_swap vm \<le> disk_size" "root_disk_size \<le> 0"
    using that
    by (simp add: create_disks_def bind_act_def tp lift_def get_disk disk(2) Let_def resolved
        raise_def)
  have run: "create_v4 remote is_private poll_interval bootstrap vm w =
      bind_act (create_disks remote poll_interval vm root_size lid) (\<lambda>_.
        bind_act (boot_v4 remote poll_interval None lid PNone False) (\<lambda>_.
        create_finish remote is_private bootstrap vm (PDict inst) lid)) w2"
    using valid fresh explicit
    by (simp add: create_v4_def bind_act_Some_Inr [where m = "fire_event (event_tag (vm_name vm) ''creating'') (PDict [(''name'', PStr (vm_name vm))])", OF ev]
        bind_act_Some_Inr [where m = "create_provision remote vm", OF prov] get_id)
  show ?thesis
    by (auto simp: run bind_act_def over nonpos)
qed

theorem create_capacity_errors_witness:
  "create_v4 stub_provider stub_is_private 500 stub_bootstrap
       (vm_web01\<lparr>vm_disk_size := Some 26000\<rparr>) world0
     = Some (Inl (SaltCloudException
                    ''Insufficient space available for type 'g6-standard-1' (25600)''),
             world0\<lparr>calls :=
                 [request_v4 ''POST'' ''/linode/instances''
                    (create_params (vm_web01\<lparr>vm_disk_size := Some 26000\<rparr>)),
                  request_v4 ''GET'' ''/linode/types/g6-standard-1'' PNone],
               events := [(''salt/cloud/web-01/creating'', PDict [(''name'', PStr ''web-01'')])]\<rparr>)
   \<and> create_v4 stub_provider stub_is_private 500 stub_bootstrap
       (vm_web01\<lparr>vm_swap := 25600, vm_disk_size := Some 0\<rparr>) world0
     = Some (Inl (SaltCloudException ''Disk must be allocated for the root disk partition''),
             world0\<lparr>calls :=
                 [request_v4 ''POST'' ''/linode/instances''
                    (create_params (vm_web01\<lparr>vm_swap := 25600, vm_disk_size := Some 0\<rparr>)),
                  request_v4 ''GET'' ''/linode/types/g6-standard-1'' PNone],
               events := [(''salt/cloud/web-01/creating'', PDict [(''name'', PStr ''web-01'')])]\<rparr>)"
proof -
  let ?spec = "[(''id'', PStr ''g6-standard-1''), (''disk'', PInt 25600)]"
  have valid: "validate_name (vm_name (vm_web01\<lparr>vm_disk_size := d, vm_swap := s\<rparr>))" for d s
    by (simp add: vm_web01_def validate_name_def name_regex_def is_alnum_def is_label_char_def)
  have fresh: "\<not> should_clone (vm_web01\<lparr>vm_disk_size := d, vm_swap := s\<rparr>)" for d s
    by (simp add: vm_web01_def should_clone_def)
  have created: "stub_provider (calls world0) (request_v4 ''POST'' ''/linode/instances'' body)
      = Response 200 (Some instance_web01)" for body
    by (simp add: stub_provider_def request_v4_def)
  have sp: "stub_provider (calls world0 @ [request_v4 ''POST'' ''/linode/instances'' body])
        (request_v4 ''GET'' (''/linode/types/'' @ py_str (vm_size (vm_web01\<lparr>vm_disk_size := d, vm_swap := s\<rparr>))) PNone)
      = Response 200 (Some (PDict ?spec))" for body d s
    by (simp add: stub_provider_def request_v4_def vm_web01_def)
  have d1: "PInt 25600 = (case map_of ?spec ''disk'' of Some v \<Rightarrow> v | None \<Rightarrow> PInt 0)" by simp
  have d2: "py_num (PInt 25600) = Inr 25600" by (simp add: py_num_def)
  note inst = created [unfolded instance_web01_def]
  have a: "create_v4 stub_provider stub_is_private 500 stub_bootstrap
       (vm_web01\<lparr>vm_disk_size := Some 26000\<rparr>) world0
     = Some (Inl (SaltCloudException
                    ''Insufficient space available for type 'g6-standard-1' (25600)''),
             world0\<lparr>calls :=
                 [request_v4 ''POST'' ''/linode/instances''
                    (create_params (vm_web01\<lparr>vm_disk_size := Some 26000\<rparr>)),
                  request_v4 ''GET'' ''/linode/types/g6-standard-1'' PNone],
               events := [(''salt/cloud/web-01/creating'', PDict [(''name'', PStr ''web-01'')])]\<rparr>)"
    using create_capacity_errors [where vm = "vm_web01\<lparr>vm_disk_size := Some 26000, vm_swap := 256\<rparr>"
        and remote = stub_provider and w = world0 and root_size = 26000 and disk_size = 25600
        and disk_v = "PInt 25600" and spec = ?spec and is_private = stub_is_private
        and poll_interval = 500 and bootstrap = stub_bootstrap,
        OF valid fresh _ inst sp d1 d2 refl refl]
    by (simp add: vm_web01_def world0_def event_tag_def str_int_def digits.simps digit_char_def)
  have b: "create_v4 stub_provider stub_is_private 500 stub_bootstrap
       (vm_web01\<lparr>vm_swap := 25600, vm_disk_size := Some 0\<rparr>) world0
     = Some (Inl (SaltCloudException ''Disk must be allocated for the root disk partition''),
             world0\<lparr>calls :=
                 [request_v4 ''POST'' ''/linode/instances''
                    (create_params (vm_web01\<lparr>vm_swap := 25600, vm_disk_size := Some 0\<rparr>)),
                  request_v4 ''GET'' ''/linode/types/g6-standard-1'' PNone],
               events := [(''salt/cloud/web-01/creating'', PDict [(''name'', PStr ''web-01'')])]\<rparr>)"
    using create_capacity_errors [where vm = "vm_web01\<lparr>vm_disk_size := Some 0, vm_swap := 25600\<rparr>"
        and remote = stub_provider and w = world0 and root_size = 0 and disk_size = 25600
        and disk_v = "PInt 25600" and spec = ?spec and is_private = stub_is_private
        and poll_interval = 500 and bootstrap = stub_bootstrap,
        OF valid fresh _ inst sp d1 d2 refl refl]
    by (simp add: vm_web01_def world0_def event_tag_def)
  show ?thesis using a b by blast
qed

text \<open>
  The claim as stated says the error for a root size that is not positive names the size
  class and its capacity. With a swap size of 30000 MB on the class of 25600 MB and the
  root size left to be resolved, the message names neither.
\<close>

theorem root_size_error_names_nothing_counterexample:
  "map_option fst
     (create_v4 stub_provider stub_is_private 500 stub_bootstrap
        (vm_web01\<lparr>vm_swap := 30000, vm_disk_size := Some 0\<rparr>) world0)
   = Some (Inl (SaltCloudException ''Disk must be allocated for the root disk partition''))"
  by code_simp

subsection \<open>True division\<close>

text \<open>
  The exponent that \<open>floor_log2\<close> finds is the right one, and the double nearest to a
  quotient of at least 1 is at least 1: rounding does not take a budget of one poll
  or more below one.
\<close>

lemma bit_length_nonneg: "0 \<le> bit_length n"
proof (induction n rule: bit_length.induct)
  case (1 n)
  then show ?case by (subst bit_length.simps) auto
qed

lemma bit_length_pos: "0 < n \<Longrightarrow> 1 \<le> bit_length n"
  using bit_length_nonneg [of "n div 2"] by (subst bit_length.simps) simp

lemma bit_length_bounds:
  "0 < n \<Longrightarrow> 2 ^ nat (bit_length n - 1) \<le> n \<and> n < 2 ^ nat (bit_length n)"
proof (induction n rule: bit_length.induct)
  case (1 n)
  have bl: "bit_length n = 1 + bit_length (n div 2)"
    using 1(2) by (subst bit_length.simps) simp
  show ?case
  proof (cases "n div 2 \<le> 0")
    case True
    with 1(2) have "n = 1" by presburger
    then show ?thesis by (simp add: bit_length.simps)
  next
    case False
    then have pos: "0 < n div 2" by simp
    from 1(1) pos 1(2)
    have ih: "2 ^ nat (bit_length (n div 2) - 1) \<le> n div 2"
      "n div 2 < 2 ^ nat (bit_length (n div 2))"
      by auto
    have blpos: "1 \<le> bit_length (n div 2)"
      using pos by (rule bit_length_pos)
    define k where "k = nat (bit_length (n div 2) - 1)"
    have k: "bit_length (n div 2) = 1 + int k"
      using blpos by (simp add: k_def)
    have "(2::int) ^ k \<le> n div 2" "n div 2 < 2 * 2 ^ k"
      using ih unfolding k by (simp_all add: nat_add_distrib)
    then have "2 * 2 ^ k \<le> n" "n < 2 * (2 * 2 ^ k)" by presburger+
    then show ?thesis unfolding bl k by (simp add: nat_add_distrib)
  qed
qed

lemma floor_log2_bounds:
  assumes "0 < a" "0 < b"
  shows "(2::rat) powi floor_log2 a b \<le> of_int a / of_int b"
    and "of_int a / of_int b < (2::rat) powi (floor_log2 a b + 1)"
proof -
  define la where "la = bit_length a"
  define lb where "lb = bit_length b"
  have la: "2 ^ nat (la - 1) \<le> a" "a < 2 ^ nat la"
    using bit_length_bounds [OF assms(1)] by (simp_all add: la_def)
  have lb: "2 ^ nat (lb - 1) \<le> b" "b < 2 ^ nat lb"
    using bit_length_bounds [OF assms(2)] by (simp_all add: lb_def)
  have lapos: "1 \<le> la" unfolding la_def using assms(1) by (rule bit_length_pos)
  have lbpos: "1 \<le> lb" unfolding lb_def using assms(2) by (rule bit_length_pos)
  have ra: "(2::rat) powi (la - 1) \<le> of_int a" "of_int a < (2::rat) powi la"
  proof -
    have "(of_int (2 ^ nat (la - 1)) :: rat) \<le> of_int a" using la(1) by (simp only: of_int_le_iff)
    then show "(2::rat) powi (la - 1) \<le> of_int a" using lapos by (simp add: power_int_def)
    have "(of_int a :: rat) < of_int (2 ^ nat la)" using la(2) by (simp only: of_int_less_iff)
    then show "of_int a < (2::rat) powi la" using lapos by (simp add: power_int_def)
  qed
  have rb: "(2::rat) powi (lb - 1) \<le> of_int b" "of_int b < (2::rat) powi lb"
  proof -
    have "(of_int (2 ^ nat (lb - 1)) :: rat) \<le> of_int b" using lb(1) by (simp only: of_int_le_iff)
    then show "(2::rat) powi (lb - 1) \<le> of_int b" using lbpos by (simp add: power_int_def)
    have "(of_int b :: rat) < of_int (2 ^ nat lb)" using lb(2) by (simp only: of_int_less_iff)
    then show "of_int b < (2::rat) powi lb" using lbpos by (simp add: power_int_def)
  qed
  have bpos: "(0::rat) < of_int b" using assms(2) by simp
  have apos: "(0::rat) < of_int a" using assms(1) by simp
  have low: "(2::rat) powi (la - lb - 1) * of_int b \<le> of_int a"
  proof -
    have "(2::rat) powi (la - lb - 1) * of_int b \<le> 2 powi (la - lb - 1) * 2 powi lb"
      using rb(2) by (intro mult_left_mono) (auto simp: less_imp_le)
    also have "\<dots> = 2 powi (la - 1)"
      by (simp add: power_int_add [symmetric])
    also have "\<dots> \<le> of_int a" by (rule ra(1))
    finally show ?thesis .
  qed
  have high: "of_int a < (2::rat) powi (la - lb + 1) * of_int b"
  proof -
    have "of_int a < (2::rat) powi la" by (rule ra(2))
    also have "\<dots> = 2 powi (la - lb + 1) * 2 powi (lb - 1)"
      by (simp add: power_int_add [symmetric])
    also have "\<dots> \<le> 2 powi (la - lb + 1) * of_int b"
      using rb(1) by (intro mult_left_mono) auto
    finally show ?thesis .
  qed
  show "(2::rat) powi floor_log2 a b \<le> of_int a / of_int b"
    using low bpos
    by (auto simp: floor_log2_def Let_def la_def [symmetric] lb_def [symmetric] pos_le_divide_eq)
  show "of_int a / of_int b < (2::rat) powi (floor_log2 a b + 1)"
    using high bpos
    by (auto simp: floor_log2_def Let_def la_def [symmetric] lb_def [symmetric] pos_divide_less_eq not_le)
qed

lemma round_half_even_bounds:
  "\<lfloor>x\<rfloor> \<le> round_half_even x" "round_half_even x \<le> \<lfloor>x\<rfloor> + 1"
  by (auto simp: round_half_even_def Let_def)

lemma powi_split: "(2::rat) powi k * 2 powi (e - k) = 2 powi e"
  by (simp add: power_int_add [symmetric])

lemma powi_split_Suc: "(2::rat) powi (k + 1) * 2 powi (e - k) = 2 powi (e + 1)"
proof -
  have "(2::rat) powi (k + 1 + (e - k)) = 2 powi (k + 1) * 2 powi (e - k)"
    by (rule power_int_add) simp
  moreover have "k + 1 + (e - k) = e + 1" by simp
  ultimately show ?thesis by (simp only:)
qed

lemma double_of_quot_ge_1:
  assumes "0 < b" "b \<le> a" "of_int a / of_int b < (2::rat) powi 1023"
  shows "\<exists>r. double_of_quot a b = Some r \<and> 1 \<le> r"
proof -
  define e where "e = floor_log2 a b"
  define q :: rat where "q = of_int a / of_int b"
  have apos: "0 < a" using assms by simp
  have q1: "1 \<le> q" using assms by (simp add: q_def pos_le_divide_eq)
  have lo: "(2::rat) powi e \<le> q" and hi: "q < (2::rat) powi (e + 1)"
    using floor_log2_bounds [OF apos assms(1)] by (simp_all add: e_def q_def)
  have e0: "0 \<le> e"
  proof (rule ccontr)
    assume "\<not> 0 \<le> e"
    then have "e + 1 \<le> 0" by simp
    then have "(2::rat) powi (e + 1) \<le> 2 powi 0" by (intro power_int_increasing) auto
    with hi q1 show False by simp
  qed
  have e1023: "e < 1023"
  proof (rule ccontr)
    assume "\<not> e < 1023"
    then have "(2::rat) powi 1023 \<le> 2 powi e" by (intro power_int_increasing) auto
    with lo assms(3) show False unfolding q_def by (meson not_le order_trans)
  qed
  define ulp :: rat where "ulp = 2 powi (e - 52)"
  define p52 :: int where "p52 = 2 ^ 52"
  have ulppos: "0 < ulp" by (simp add: ulp_def)
  have p52: "(of_int p52 :: rat) = 2 powi 52" by (simp add: p52_def)
  have p53: "(of_int (2 * p52) :: rat) = 2 powi (52 + 1)" by (simp add: p52_def)
  have s52: "of_int p52 * ulp = 2 powi e"
    unfolding p52 ulp_def by (rule powi_split)
  have s53: "of_int (2 * p52) * ulp = 2 powi (e + 1)"
    unfolding p53 ulp_def by (rule powi_split_Suc)
  define m where "m = round_half_even (q / ulp)"
  have "of_int p52 * ulp \<le> q" using lo by (simp only: s52)
  then have "(of_int p52 :: rat) \<le> q / ulp" using ulppos by (simp only: pos_le_divide_eq)
  then have "p52 \<le> \<lfloor>q / ulp\<rfloor>" by (simp only: le_floor_iff)
  then have mlo: "p52 \<le> m"
    unfolding m_def by (rule order_trans [OF _ round_half_even_bounds(1)])
  have "q < of_int (2 * p52) * ulp" using hi by (simp only: s53)
  then have "q / ulp < (of_int (2 * p52) :: rat)" using ulppos by (simp only: pos_divide_less_eq)
  then have "\<lfloor>q / ulp\<rfloor> < 2 * p52" by (simp only: floor_less_iff)
  then have "\<lfloor>q / ulp\<rfloor> + 1 \<le> 2 * p52" by simp
  then have mhi: "m \<le> 2 * p52"
    unfolding m_def by (rule order_trans [OF round_half_even_bounds(2)])
  define r :: rat where "r = of_int m * ulp"
  have "(1::rat) \<le> 2 powi e" using e0 by (simp add: one_le_power_int)
  also have "\<dots> = of_int p52 * ulp" by (simp only: s52)
  also have "\<dots> \<le> r" unfolding r_def using mlo ulppos
    by (intro mult_right_mono) (simp_all only: of_int_le_iff less_imp_le)
  finally have r1: "1 \<le> r" .
  have "r \<le> of_int (2 * p52) * ulp" unfolding r_def using mhi ulppos
    by (intro mult_right_mono) (simp_all only: of_int_le_iff less_imp_le)
  also have "\<dots> = 2 powi (e + 1)" by (simp only: s53)
  also have "\<dots> \<le> 2 powi 1023" using e1023 by (intro power_int_increasing) auto
  also have "\<dots> < (2::rat) powi 1024" by (intro power_int_strict_increasing) auto
  finally have rhi: "\<not> 2 powi 1024 \<le> r" by (simp only: not_le)
  have emax: "max e (- 1022) = e" using e0 by simp
  have arg: "of_int a / (of_int b * ulp) = q / ulp" by (simp add: q_def)
  have "double_of_quot a b = Some r"
    unfolding double_of_quot_def Let_def e_def [symmetric] emax ulp_def [symmetric] arg
      m_def [symmetric] r_def [symmetric]
    using rhi by (simp only: if_False)
  with r1 show ?thesis by blast
qed

lemma py_truediv_ge_1:
  assumes "0 < b" "b \<le> a" "a < 2 ^ 1023"
  shows "\<exists>r. py_truediv a b = Inr r \<and> 1 \<le> r"
proof -
  have "(of_int a :: rat) / of_int b \<le> of_int a"
    using assms by (simp add: pos_divide_le_eq mult_le_cancel_left1)
  also have "\<dots> < of_int (2 ^ 1023)" using assms(3) by (simp only: of_int_less_iff)
  also have "\<dots> = (2::rat) powi 1023" by simp
  finally have "(of_int a :: rat) / of_int b < 2 powi 1023" .
  from double_of_quot_ge_1 [OF assms(1,2) this] obtain r
    where "double_of_quot a b = Some r" "1 \<le> r" by blast
  then show ?thesis using assms by (simp add: py_truediv_def)
qed

lemma py_truediv_120000_500: "py_truediv 120000 500 = Inr 240"
  by code_simp

lemma iterations_300: "iterations 300 = Inr 60"
  by code_simp

text \<open>
  Rounding can lift a budget to one poll: 10^17 seconds polled every 10^20 + 1
  milliseconds is less than one poll, and the float quotient is 1.
\<close>

lemma py_truediv_rounds_up: "py_truediv (10 ^ 17 * 1000) (10 ^ 20 + 1) = Inr 1"
  by code_simp

lemma iterations_rounds_down: "iterations 45035996273704965 = Inr 9007199254740992"
  by code_simp

subsection \<open>Waiting for a job and for a status\<close>

lemma job_loop_pending:
  assumes "\<And>h. job_not_done (remote h (job_request apikey linode_id)) job_id"
  shows "job_loop remote apikey linode_id job_id n w =
           Some (Inr False, w\<lparr>calls := calls w @ replicate n (job_request apikey linode_id)\<rparr>)"
proof (induction n arbitrary: w)
  case 0
  show ?case by (simp add: ret_def)
next
  case (Suc n)
  from assms [of "calls w"] obtain d jobs where
    d: "then_e (remote (calls w) (job_request apikey linode_id)) query_v3_check = Inr d"
    and jobs: "py_item d ''DATA'' = Inr jobs" and nd: "job_done jobs job_id = Inr False"
    by (auto simp: job_not_done_def split: sum.splits)
  have q: "query_v3 remote apikey ''linode'' ''job.list'' (PDict [(''LinodeID'', linode_id)]) w =
      Some (Inr d, w\<lparr>calls := calls w @ [job_request apikey linode_id]\<rparr>)"
    using d by (simp add: query_v3_def job_request_def)
  show ?case
    by (simp add: bind_act_def q lift_def jobs nd Suc.IH replicate_app_Cons_same)
qed

lemma wait_loop_fresh_aux:
  assumes "wait_loop getter status entity_name ident ntimes cur w = Some y"
  shows "case y of (Inr result, w') \<Rightarrow> py_get result ''status'' PNone = Inr (PStr status)
                 | (Inl e, w') \<Rightarrow> True"
proof (rule wait_loop.raw_induct
    [where P = "\<lambda>getter status entity_name ident ntimes cur w y.
       case y of (Inr result, w') \<Rightarrow> py_get result ''status'' PNone = Inr (PStr status)
               | (Inl e, w') \<Rightarrow> True", OF _ assms])
  fix f g s e i n c v z
  assume ih: "\<And>g s e i n c v z. f g s e i n c v = Some z \<Longrightarrow>
      (case z of (Inr result, w') \<Rightarrow> py_get result ''status'' PNone = Inr (PStr s)
               | (Inl e, w') \<Rightarrow> True)"
    and body: "(case g v of
        None \<Rightarrow> None
      | Some (Inl e, w') \<Rightarrow> Some (Inl e, w')
      | Some (Inr result, w') \<Rightarrow>
          (case py_get result ''status'' PNone of
             Inl e \<Rightarrow> Some (Inl e, w')
           | Inr current_status \<Rightarrow>
               if current_status = PStr s then Some (Inr result, w')
               else if of_int c \<le> n then f g s e i n c w'
               else Some (Inl (SaltCloudException (timed_out_msg e i s)), w'))) = Some z"
  from body show "case z of (Inr result, w') \<Rightarrow> py_get result ''status'' PNone = Inr (PStr s)
               | (Inl e, w') \<Rightarrow> True"
    by (auto split: option.splits sum.splits prod.splits if_splits dest: ih)
qed

lemma wait_loop_fresh:
  "wait_loop getter status entity_name ident ntimes cur w = Some (Inr result, w')
     \<Longrightarrow> py_get result ''status'' PNone = Inr (PStr status)"
  by (drule wait_loop_fresh_aux) simp

lemma wait_loop_gives_up:
  assumes "getter w = Some (Inr result, w')" "status_differs result status"
    "\<not> of_int cur \<le> ntimes"
  shows "wait_loop getter status entity_name ident ntimes cur w =
           Some (Inl (SaltCloudException (timed_out_msg entity_name ident status)), w')"
  using assms
  by (subst wait_loop.simps) (auto simp: status_differs_def split: sum.splits)

lemma wait_loop_never_returns_aux:
  assumes "wait_loop getter status entity_name ident ntimes cur w = Some y"
  shows "\<not> ((\<forall>w. \<exists>result w'. getter w = Some (Inr result, w') \<and> status_differs result status)
            \<and> of_int cur \<le> ntimes)"
proof (rule wait_loop.raw_induct
    [where P = "\<lambda>getter status entity_name ident ntimes cur w y.
       \<not> ((\<forall>w. \<exists>result w'. getter w = Some (Inr result, w') \<and> status_differs result status)
            \<and> of_int cur \<le> ntimes)", OF _ assms])
  fix f g s e i n c v z
  assume ih: "\<And>g s e i n c v z. f g s e i n c v = Some z \<Longrightarrow>
      \<not> ((\<forall>w. \<exists>result w'. g w = Some (Inr result, w') \<and> status_differs result s)
            \<and> of_int c \<le> n)"
    and body: "(case g v of
        None \<Rightarrow> None
      | Some (Inl e, w') \<Rightarrow> Some (Inl e, w')
      | Some (Inr result, w') \<Rightarrow>
          (case py_get result ''status'' PNone of
             Inl e \<Rightarrow> Some (Inl e, w')
           | Inr current_status \<Rightarrow>
               if current_status = PStr s then Some (Inr result, w')
               else if of_int c \<le> n then f g s e i n c w'
               else Some (Inl (SaltCloudException (timed_out_msg e i s)), w'))) = Some z"
  show "\<not> ((\<forall>w. \<exists>result w'. g w = Some (Inr result, w') \<and> status_differs result s)
            \<and> of_int c \<le> n)"
  proof
    assume h: "(\<forall>w. \<exists>result w'. g w = Some (Inr result, w') \<and> status_differs result s)
        \<and> of_int c \<le> n"
    then obtain result w' where gv: "g v = Some (Inr result, w')"
      and d: "status_differs result s" by blast
    from body gv d h have "f g s e i n c w' = Some z"
      by (auto simp: status_differs_def split: sum.splits if_splits)
    from ih [OF this] h show False by blast
  qed
qed

lemma wait_loop_never_returns:
  assumes never: "\<And>w. \<exists>result w'. getter w = Some (Inr result, w') \<and> status_differs result status"
    and more: "of_int cur \<le> ntimes"
  shows "wait_loop getter status entity_name ident ntimes cur w = None"
proof (cases "wait_loop getter status entity_name ident ntimes cur w")
  case None
  then show ?thesis .
next
  case (Some y)
  from wait_loop_never_returns_aux [OF this] never more show ?thesis by blast
qed

lemma wait_for_entity_status_fresh:
  assumes "wait_for_entity_status poll_interval getter status entity_name ident timeout w
      = Some (Inr result, w')"
  shows "py_get result ''status'' PNone = Inr (PStr status)"
  using assms unfolding wait_for_entity_status_def
  by (auto simp: lift_def elim!: bind_act_Inr_elim dest: wait_loop_fresh)

text \<open>
  The APIv3 loop ends: when no probe finds the job finished it makes \<^verbatim>\<open>int(timeout / 5)\<close>
  probes and returns \<^verbatim>\<open>False\<close>, a value and not an error; 60 probes for the default
  timeout.
\<close>

lemma wait_for_job_pending:
  assumes "\<And>h. job_not_done (remote h (job_request apikey linode_id)) job_id"
    and "iterations timeout = Inr n"
  shows "wait_for_job remote apikey linode_id job_id timeout w =
           Some (Inr False,
                 w\<lparr>calls := calls w @ replicate (nat n) (job_request apikey linode_id)\<rparr>)"
  using assms(2)
  by (simp add: wait_for_job_def job_loop_pending [where remote = remote, OF assms(1)])

lemma stub_job_pending:
  "job_not_done (stub_provider3 h (job_request (PStr ''KEY'') (PInt 7))) (PInt 99)"
  by (simp add: job_not_done_def stub_provider3_def job_request_def request_v3_def
      query_v3_args_def query_v3_check_def py_item_def py_contains_def py_truthy_def
      job_done_def py_first_def job_pending_def py_eq_def py_num_def)

lemma wait_for_job_stub:
  "wait_for_job stub_provider3 (PStr ''KEY'') (PInt 7) (PInt 99) 300 world0 =
     Some (Inr False,
           world0\<lparr>calls := replicate 60 (job_request (PStr ''KEY'') (PInt 7))\<rparr>)"
  using wait_for_job_pending [where remote = stub_provider3, OF stub_job_pending iterations_300,
      of world0]
  by (simp add: world0_def)

lemma stub_status_running:
  "py_get instance_web01 ''status'' PNone = Inr (PStr ''running'')"
  by (simp add: instance_web01_def py_get_def)

lemma stub_never_offline:
  "\<exists>result w'. get_linode_by_id_v4 stub_provider (PInt 1) w = Some (Inr result, w')
      \<and> status_differs result ''offline''"
  by (simp add: stub_get_by_id status_differs_def stub_status_running)

text \<open>
  Claim C1. The APIv4 loop does not end. When every probe returns an observation whose
  status is not the target, and the timeout is at least one poll interval,
  \<^verbatim>\<open>_wait_for_entity_status\<close> never returns and never raises: \<^verbatim>\<open>curr\<close> stays 1, so the
  test \<^verbatim>\<open>curr <= times\<close> holds in every round and the branch that raises the time-out
  error is not reached. This covers every call in the driver, where the timeout is 120
  seconds, for every poll interval from 1 to 120000 milliseconds. The claim says the loop
  ends after about \<^verbatim>\<open>timeout / poll_interval\<close> probes with an error, and never loops
  forever. The bound on the timeout (some 68 years) keeps the quotient among the floats
  and every pause within what \<^verbatim>\<open>time.sleep\<close> accepts.
\<close>

theorem wait_for_entity_status_never_gives_up:
  assumes "\<And>w. \<exists>result w'. getter w = Some (Inr result, w') \<and> status_differs result status"
    and "0 < poll_interval" and "poll_interval \<le> timeout * 1000"
    and "timeout < 2 ^ 31"
  shows "wait_for_entity_status poll_interval getter status entity_name ident timeout w = None"
proof -
  have "timeout * 1000 < 2 ^ 31 * 2 ^ 10" using assms(4) by simp
  also have "\<dots> \<le> (2::int) ^ 1023"
    unfolding power_add [symmetric] by (rule power_increasing) simp_all
  finally have "timeout * 1000 < 2 ^ 1023" .
  from py_truediv_ge_1 [OF assms(2,3) this] obtain ntimes
    where q: "py_truediv (timeout * 1000) poll_interval = Inr ntimes" and "1 \<le> ntimes"
    by blast
  then have "of_int 1 \<le> ntimes" by simp
  from wait_loop_never_returns [where getter = getter and status = status, OF assms(1) this]
  show ?thesis
    by (simp add: wait_for_entity_status_def q)
qed

theorem wait_for_entity_status_never_gives_up_witness:
  "wait_for_entity_status 500 (get_linode_by_id_v4 stub_provider (PInt 1)) ''offline''
     ''linode'' ''1'' 120 world0 = None"
  using wait_for_entity_status_never_gives_up
    [where getter = "get_linode_by_id_v4 stub_provider (PInt 1)" and status = "''offline''"
       and poll_interval = 500 and timeout = 120, OF stub_never_offline]
  by simp

text \<open>
  On the stub account, whose instance stays \<^verbatim>\<open>running\<close>, \<^verbatim>\<open>stop\<close> sends the shutdown
  request and then never returns.
\<close>

lemma stop_v4_never_returns:
  "stop_v4 stub_provider 500 ''web-01'' world0 = None"
proof -
  have wait: "wait_for_linode_status stub_provider 500 (PInt 1) ''offline'' w = None" for w
    unfolding wait_for_linode_status_def wait_for_entity_status_def
    using wait_loop_never_returns [where getter = "get_linode_by_id_v4 stub_provider (PInt 1)"
        and status = "''offline''" and cur = 1 and ntimes = 240, OF stub_never_offline]
    by (simp add: py_truediv_120000_500)
  have found: "bind_act (get_linode_by_name_v4 stub_provider ''web-01'') f world0
      = f instance_web01 (world0\<lparr>calls := [request_v4 ''GET'' ''/linode/instances'' PNone]\<rparr>)"
    for f :: "pyval \<Rightarrow> pyval act"
    by (simp add: bind_act_def stub_lookup_web01)
  have id: "py_get instance_web01 ''id'' PNone = Inr (PInt 1)"
    and st: "py_item instance_web01 ''status'' = Inr (PStr ''running'')"
    by (simp_all add: instance_web01_def py_get_def py_item_def)
  have shutdown: "\<exists>r w'. query_v4 stub_provider (''/linode/instances/'' @ py_str (PInt 1) @ ''/shutdown'')
      ''POST'' PNone w = Some (Inr r, w')" for w
    by (simp add: query_v4_def query_v4_result_def query_v4_return_def stub_provider_def
        request_v4_def str_int_def digits.simps digit_char_def)
  have "stop_v4 stub_provider 500 ''web-01'' world0 =
      bind_act (query_v4 stub_provider (''/linode/instances/'' @ py_str (PInt 1) @ ''/shutdown'')
                  ''POST'' PNone) (\<lambda>_.
        bind_act (wait_for_linode_status stub_provider 500 (PInt 1) ''offline'') (\<lambda>_.
        ret (PDict [(''success'', PBool True), (''state'', PStr ''Stopped''),
                    (''action'', PStr ''stop'')])))
        (world0\<lparr>calls := [request_v4 ''GET'' ''/linode/instances'' PNone]\<rparr>)"
    unfolding stop_v4_def found by (simp add: id st)
  also have "\<dots> = None"
    using shutdown [of "world0\<lparr>calls := [request_v4 ''GET'' ''/linode/instances'' PNone]\<rparr>"]
    by (auto simp: bind_act_def wait)
  finally show ?thesis .
qed

text \<open>
  With a timeout of less than one poll interval the loop does end as the claim says: a
  first probe that misses the target raises \<^verbatim>\<open>SaltCloudException\<close> with a message naming
  the kind of entity, its identifier and the target status.
\<close>

lemma wait_for_entity_status_gives_up_at_once:
  "wait_for_entity_status 500 (get_linode_by_id_v4 stub_provider (PInt 1)) ''offline''
     ''linode'' ''1'' 0 world0 =
   Some (Inl (SaltCloudException ''timed out while waiting for linode 1 to reach status offline.''),
         world0\<lparr>calls := [request_v4 ''GET'' ''/linode/instances/1'' PNone]\<rparr>)"
proof -
  have differs: "status_differs instance_web01 ''offline''"
    by (simp add: status_differs_def stub_status_running)
  have lookup: "get_linode_by_id_v4 stub_provider (PInt 1) world0 =
      Some (Inr instance_web01, world0\<lparr>calls := [request_v4 ''GET'' ''/linode/instances/1'' PNone]\<rparr>)"
    by (simp add: stub_get_by_id world0_def)
  have zero: "py_truediv 0 500 = Inr 0" by (simp add: py_truediv_def)
  show ?thesis
    using wait_loop_gives_up [where getter = "get_linode_by_id_v4 stub_provider (PInt 1)"
        and w = world0 and ntimes = 0 and cur = 1 and entity_name = "''linode''"
        and ident = "''1''", OF lookup differs]
    by (simp add: wait_for_entity_status_def zero timed_out_msg_def)
qed

end
